theory Spec2Isabelle
  imports Complex_Main
begin

section \<open>Python text primitives used by \<^verbatim>\<open>gpu_script.py\<close>\<close>

text \<open>
  Text is a \<open>string\<close> of ASCII characters. A finite Python float is the rational
  number it denotes exactly, and \<^verbatim>\<open>float\<close> and the float operations round to the
  nearest double, ties to even, as IEEE 754 arithmetic does. The floats \<^verbatim>\<open>-0.0\<close> and
  \<^verbatim>\<open>0.0\<close>, which are equal in Python, are not told apart.
\<close>

datatype py_exc = ValueError | IndexError | OSError | OverflowError
  | CalledProcessError int string

datatype pyval = PNone | PStr string | PInt int
  | PFloat rat  \<comment> \<open>a finite float\<close>
  | PInf | PNegInf | PNaN  \<comment> \<open>the floats \<^verbatim>\<open>inf\<close>, \<^verbatim>\<open>-inf\<close> and \<^verbatim>\<open>nan\<close>\<close>

definition is_space :: "char \<Rightarrow> bool" where
  \<comment> \<open>\<^verbatim>\<open>str.isspace\<close> on ASCII: tab, LF, VT, FF, CR, FS, GS, RS, US and the blank.\<close>
  "is_space c = (c \<in> set [CHR 0x09, CHR 0x0A, CHR 0x0B, CHR 0x0C, CHR 0x0D,
                            CHR 0x1C, CHR 0x1D, CHR 0x1E, CHR 0x1F, CHR 0x20])"

definition is_digit :: "char \<Rightarrow> bool" where
  "is_digit c = (c \<in> set ''0123456789'')"

definition digit_val :: "char \<Rightarrow> int" where
  "digit_val c = of_char c - 48"

definition py_strip :: "string \<Rightarrow> string" where
  \<comment> \<open>\<^verbatim>\<open>s.strip()\<close>\<close>
  "py_strip s = rev (dropWhile is_space (rev (dropWhile is_space s)))"

fun split_acc :: "string \<Rightarrow> string \<Rightarrow> string list" where
  "split_acc cur [] = (if cur = [] then [] else [cur])"
| "split_acc cur (c # cs) =
     (if is_space c then (if cur = [] then split_acc [] cs else cur # split_acc [] cs)
      else split_acc (cur @ [c]) cs)"

definition py_split :: "string \<Rightarrow> string list" where
  \<comment> \<open>\<^verbatim>\<open>s.split()\<close>: the maximal runs of non-whitespace.\<close>
  "py_split s = split_acc [] s"

fun split_on_acc :: "char \<Rightarrow> string \<Rightarrow> string \<Rightarrow> string list" where
  "split_on_acc d cur [] = [cur]"
| "split_on_acc d cur (c # cs) =
     (if c = d then cur # split_on_acc d [] cs else split_on_acc d (cur @ [c]) cs)"

definition py_split_on :: "char \<Rightarrow> string \<Rightarrow> string list" where
  \<comment> \<open>\<^verbatim>\<open>s.split(d)\<close> for a one-character separator: empty fields are kept.\<close>
  "py_split_on d s = split_on_acc d [] s"

definition is_linebreak :: "char \<Rightarrow> bool" where
  \<comment> \<open>the ASCII line boundaries of \<^verbatim>\<open>str.splitlines\<close>\<close>
  "is_linebreak c = (c \<in> set [CHR 0x0A, CHR 0x0B, CHR 0x0C, CHR 0x0D, CHR 0x1C, CHR 0x1D, CHR 0x1E])"

fun splitlines_acc :: "bool \<Rightarrow> string \<Rightarrow> string \<Rightarrow> string list" where
  "splitlines_acc after_cr cur [] = (if cur = [] then [] else [cur])"
| "splitlines_acc after_cr cur (c # cs) =
     (if after_cr \<and> c = CHR 0x0A then splitlines_acc False [] cs
      else if is_linebreak c then cur # splitlines_acc (c = CHR 0x0D) [] cs
      else splitlines_acc False (cur @ [c]) cs)"

definition py_splitlines :: "string \<Rightarrow> string list" where
  \<comment> \<open>\<^verbatim>\<open>s.splitlines()\<close>: terminators dropped, CR LF is one boundary.\<close>
  "py_splitlines s = splitlines_acc False [] s"

fun readlines_acc :: "string \<Rightarrow> string \<Rightarrow> string list" where
  "readlines_acc cur [] = (if cur = [] then [] else [cur])"
| "readlines_acc cur (c # cs) =
     (if c = CHR 0x0A then (cur @ [c]) # readlines_acc [] cs else readlines_acc (cur @ [c]) cs)"

definition file_lines :: "string \<Rightarrow> string list" where
  \<comment> \<open>\<^verbatim>\<open>f.readlines()\<close> and \<^verbatim>\<open>for line in f\<close> on a text file whose content
      (after newline translation) is \<open>s\<close>: every line keeps its LF.\<close>
  "file_lines s = readlines_acc [] s"

fun startswith :: "string \<Rightarrow> string \<Rightarrow> bool" where
  "startswith s [] = True"
| "startswith [] (p # ps) = False"
| "startswith (c # cs) (p # ps) = (c = p \<and> startswith cs ps)"

fun contains :: "string \<Rightarrow> string \<Rightarrow> bool" where
  \<comment> \<open>\<^verbatim>\<open>sub in s\<close>, written \<open>contains s sub\<close>\<close>
  "contains [] sub = (sub = [])"
| "contains (c # cs) sub = (startswith (c # cs) sub \<or> contains cs sub)"

fun digits_to_int :: "int \<Rightarrow> string \<Rightarrow> int" where
  "digits_to_int acc [] = acc"
| "digits_to_int acc (c # cs) = digits_to_int (10 * acc + digit_val c) cs"

definition all_digits :: "string \<Rightarrow> bool" where
  \<comment> \<open>\<^verbatim>\<open>s.isdigit()\<close> on ASCII: non-empty, digits only.\<close>
  "all_digits s = (s \<noteq> [] \<and> list_all is_digit s)"

fun drop_underscores :: "bool \<Rightarrow> string \<Rightarrow> string option" where
  \<comment> \<open>digit groups separated by single underscores; the flag says a digit came just before\<close>
  "drop_underscores prev [] = (if prev then Some [] else None)"
| "drop_underscores prev (c # cs) =
     (if c = CHR ''_'' then (if prev then drop_underscores False cs else None)
      else if is_digit c then map_option ((#) c) (drop_underscores True cs)
      else None)"

definition unsigned_int :: "string \<Rightarrow> int option" where
  "unsigned_int s = map_option (digits_to_int 0) (drop_underscores False s)"

definition py_int :: "string \<Rightarrow> int option" where
  \<comment> \<open>\<^verbatim>\<open>int(s)\<close> in base 10; \<open>None\<close> is ValueError.\<close>
  "py_int s =
     (case py_strip s of
        [] \<Rightarrow> None
      | c # cs \<Rightarrow>
          if c = CHR ''-'' then map_option uminus (unsigned_int cs)
          else if c = CHR ''+'' then unsigned_int cs
          else unsigned_int (c # cs))"

subsection \<open>Rounding to a double\<close>

function bit_length :: "int \<Rightarrow> int" where
  \<comment> \<open>the number of binary digits of a positive number\<close>
  "bit_length n = (if n \<le> 0 then 0 else 1 + bit_length (n div 2))"
  by pat_completeness auto
termination
  by (relation "measure nat") auto

declare bit_length.simps [simp del]

function ipow :: "int \<Rightarrow> int \<Rightarrow> int" where
  "ipow b k = (if k \<le> 0 then 1
               else if even k then ipow (b * b) (k div 2) else b * ipow (b * b) (k div 2))"
  by pat_completeness auto
termination
  by (relation "measure (\<lambda>(b, k). nat k)") auto

declare ipow.simps [simp del]

definition round_ratio :: "bool \<Rightarrow> int \<Rightarrow> int \<Rightarrow> pyval" where
  \<comment> \<open>the double nearest to \<open>n / d\<close> (with \<open>0 \<le> n\<close> and \<open>0 < d\<close>), negated when
      \<open>neg\<close>: with \<open>e\<close> the binary exponent of the quotient, the doubles around it are
      the multiples of \<open>2 ^ q\<close>, 53 binary digits wide, or of the least subnormal
      \<open>2 ^ - 1074\<close>; a result of \<open>2 ^ 1024\<close> or more is an infinity\<close>
  "round_ratio neg n d =
     (if n = 0 then PFloat 0
      else let e0 = bit_length n - bit_length d;
               e = (if (if 0 \<le> e0 then ipow 2 e0 * d \<le> n else d \<le> n * ipow 2 (- e0))
                    then e0 else e0 - 1);
               q = max (e - 52) (- 1074);
               num = (if q < 0 then n * ipow 2 (- q) else n);
               den = (if q < 0 then d else d * ipow 2 q);
               f = num div den;
               m = (if 2 * (num mod den) < den then f
                    else if den < 2 * (num mod den) then f + 1
                    else if even f then f else f + 1);
               r = (if q < 0 then of_int m / of_int (ipow 2 (- q)) else of_int (m * ipow 2 q))
           in if 1024 < bit_length m + q then (if neg then PNegInf else PInf)
              else PFloat (if neg then - r else r))"

subsection \<open>\<^verbatim>\<open>float(s)\<close>\<close>

fun drop_float_underscores :: "bool \<Rightarrow> string \<Rightarrow> string option" where
  \<comment> \<open>an underscore is allowed between two digits only; the flag says a digit came just
      before\<close>
  "drop_float_underscores prev [] = Some []"
| "drop_float_underscores prev (c # cs) =
     (if c = CHR ''_''
      then (if prev \<and> (case cs of [] \<Rightarrow> False | d # _ \<Rightarrow> is_digit d)
            then drop_float_underscores False cs else None)
      else map_option ((#) c) (drop_float_underscores (is_digit c) cs))"

definition decimal_mantissa :: "string \<Rightarrow> (int \<times> int) option" where
  \<comment> \<open>digits with at most one point and at least one digit: the digits as a number and
      how many of them follow the point\<close>
  "decimal_mantissa s =
     (let ip = takeWhile is_digit s; r = dropWhile is_digit s
      in case r of
           [] \<Rightarrow> (if ip = [] then None else Some (digits_to_int 0 ip, 0))
         | c # fp \<Rightarrow>
             if c = CHR ''.'' \<and> list_all is_digit fp \<and> (ip \<noteq> [] \<or> fp \<noteq> [])
             then Some (digits_to_int 0 (ip @ fp), int (length fp))
             else None)"

definition is_exp_mark :: "char \<Rightarrow> bool" where
  "is_exp_mark c = (c = CHR ''e'' \<or> c = CHR ''E'')"

definition decimal_exponent :: "string \<Rightarrow> int option" where
  \<comment> \<open>nothing, or the exponent mark with a signed number\<close>
  "decimal_exponent s =
     (case s of
        [] \<Rightarrow> Some 0
      | _ # ex \<Rightarrow>
          (case ex of
             [] \<Rightarrow> None
           | c # cs \<Rightarrow>
               if c = CHR ''-'' then (if all_digits cs then Some (- digits_to_int 0 cs) else None)
               else if c = CHR ''+'' then (if all_digits cs then Some (digits_to_int 0 cs) else None)
               else (if all_digits (c # cs) then Some (digits_to_int 0 (c # cs)) else None)))"

definition decimal_float :: "string \<Rightarrow> pyval option" where
  "decimal_float s =
     (case decimal_mantissa (takeWhile (\<lambda>c. \<not> is_exp_mark c) s) of
        None \<Rightarrow> None
      | Some (digits, places) \<Rightarrow>
          (case decimal_exponent (dropWhile (\<lambda>c. \<not> is_exp_mark c) s) of
             None \<Rightarrow> None
           | Some k \<Rightarrow>
               Some (if places \<le> k then round_ratio False (digits * ipow 10 (k - places)) 1
                     else round_ratio False digits (ipow 10 (places - k)))))"

definition lower :: "char \<Rightarrow> char" where
  \<comment> \<open>\<^verbatim>\<open>c.lower()\<close> on ASCII\<close>
  "lower c = (if c \<in> set ''ABCDEFGHIJKLMNOPQRSTUVWXYZ'' then char_of (of_char c + (32::nat)) else c)"

definition unsigned_float :: "string \<Rightarrow> pyval option" where
  "unsigned_float s =
     (if map lower s \<in> set [''inf'', ''infinity''] then Some PInf
      else if map lower s = ''nan'' then Some PNaN
      else (case drop_float_underscores False s of
              None \<Rightarrow> None
            | Some t \<Rightarrow> decimal_float t))"

definition fl_neg :: "pyval \<Rightarrow> pyval" where
  "fl_neg v = (case v of PFloat x \<Rightarrow> PFloat (- x) | PInf \<Rightarrow> PNegInf | PNegInf \<Rightarrow> PInf | w \<Rightarrow> w)"

definition py_float :: "string \<Rightarrow> pyval option" where
  \<comment> \<open>\<^verbatim>\<open>float(s)\<close>: surrounding whitespace, a sign, then \<^verbatim>\<open>inf\<close>,
      \<^verbatim>\<open>infinity\<close> or \<^verbatim>\<open>nan\<close> in any case, or a decimal literal with optional point,
      exponent and digit-group underscores; \<open>None\<close> is ValueError\<close>
  "py_float s =
     (case py_strip s of
        [] \<Rightarrow> None
      | c # cs \<Rightarrow>
          if c = CHR ''-'' then map_option fl_neg (unsigned_float cs)
          else if c = CHR ''+'' then unsigned_float cs
          else unsigned_float (c # cs))"

subsection \<open>Float arithmetic\<close>

definition round_double :: "rat \<Rightarrow> pyval" where
  "round_double x = round_ratio (x < 0) \<bar>fst (quotient_of x)\<bar> (snd (quotient_of x))"

definition fl_add :: "pyval \<Rightarrow> pyval \<Rightarrow> pyval" where
  \<comment> \<open>\<^verbatim>\<open>a + b\<close> on floats\<close>
  "fl_add a b =
     (case (a, b) of
        (PFloat x, PFloat y) \<Rightarrow> round_double (x + y)
      | (PNaN, _) \<Rightarrow> PNaN
      | (_, PNaN) \<Rightarrow> PNaN
      | (PInf, PNegInf) \<Rightarrow> PNaN
      | (PNegInf, PInf) \<Rightarrow> PNaN
      | (PInf, _) \<Rightarrow> PInf
      | (PNegInf, _) \<Rightarrow> PNegInf
      | (_, w) \<Rightarrow> w)"

definition fl_sum :: "pyval list \<Rightarrow> pyval" where
  \<comment> \<open>\<^verbatim>\<open>sum(xs)\<close> on floats: from 0, left to right, every addition rounded (CPython
      before 3.12; later versions also compensate the rounding errors)\<close>
  "fl_sum xs = foldl fl_add (PFloat 0) xs"

definition fl_div_int :: "pyval \<Rightarrow> int \<Rightarrow> pyval" where
  \<comment> \<open>\<^verbatim>\<open>a / n\<close> for a float and a positive int below \<open>2 ^ 53\<close>\<close>
  "fl_div_int a n = (case a of PFloat x \<Rightarrow> round_double (x / of_int n) | w \<Rightarrow> w)"

definition fl_mul_int :: "pyval \<Rightarrow> int \<Rightarrow> pyval" where
  \<comment> \<open>\<^verbatim>\<open>a * n\<close> for a float and a positive int below \<open>2 ^ 53\<close>\<close>
  "fl_mul_int a n = (case a of PFloat x \<Rightarrow> round_double (x * of_int n) | w \<Rightarrow> w)"

definition int_true_div :: "int \<Rightarrow> int \<Rightarrow> py_exc + pyval" where
  \<comment> \<open>\<^verbatim>\<open>a / b\<close> on ints, \<open>b\<close> not 0: the quotient correctly rounded\<close>
  "int_true_div a b =
     (case round_double (of_int a / of_int b) of
        PFloat q \<Rightarrow> Inr (PFloat q)
      | _ \<Rightarrow> Inl OverflowError)"

section \<open>The regular expressions of the metrics extractor\<close>

text \<open>
  The patterns of \<^verbatim>\<open>parse_parabricks_output\<close> are sequences of single characters or
  character classes, each taken once or under \<^verbatim>\<open>*\<close>, \<^verbatim>\<open>+\<close> or the lazy
  \<^verbatim>\<open>*?\<close>, with capture groups. The matcher backtracks in the order of Python's
  \<^verbatim>\<open>re\<close>: a greedy repetition tries the longest run first, a lazy one the shortest.
\<close>

datatype cclass = Lit char | Digit | DigitDot | Space | AnyButNL | AnyChar

fun cmatch :: "cclass \<Rightarrow> char \<Rightarrow> bool" where
  "cmatch (Lit a) c = (c = a)"
| "cmatch Digit c = is_digit c"
| "cmatch DigitDot c = (is_digit c \<or> c = CHR ''.'')"
| "cmatch Space c = is_space c"
| "cmatch AnyButNL c = (c \<noteq> CHR 0x0A)"
| "cmatch AnyChar c = True"

datatype quant = Star | Plus | LazyStar

datatype node = One cclass | Rep cclass quant | GOpen | GClose

type_synonym regex = "node list"

fun try_each :: "(nat \<Rightarrow> 'a option) \<Rightarrow> nat list \<Rightarrow> 'a option" where
  "try_each f [] = None"
| "try_each f (k # ks) = (case f k of Some r \<Rightarrow> Some r | None \<Rightarrow> try_each f ks)"

fun counts :: "quant \<Rightarrow> nat \<Rightarrow> nat list" where
  \<comment> \<open>the repetition counts to try, in order, when at most \<open>n\<close> characters fit\<close>
  "counts Star n = rev [0..<Suc n]"
| "counts Plus n = rev [1..<Suc n]"
| "counts LazyStar n = [0..<Suc n]"

definition grow :: "string option \<Rightarrow> string \<Rightarrow> string option" where
  \<comment> \<open>the text consumed goes to the capture group that is open, if any\<close>
  "grow og t = map_option (\<lambda>g. g @ t) og"

fun rmatch :: "regex \<Rightarrow> string \<Rightarrow> string option \<Rightarrow> string list \<Rightarrow> (string list \<times> string) option" where
  \<comment> \<open>match at the start of the text: the groups captured and the text left over\<close>
  "rmatch [] s og gs = Some (gs, s)"
| "rmatch (GOpen # p) s og gs = rmatch p s (Some []) gs"
| "rmatch (GClose # p) s og gs = rmatch p s None (gs @ [case og of Some g \<Rightarrow> g | None \<Rightarrow> []])"
| "rmatch (One c # p) [] og gs = None"
| "rmatch (One c # p) (x # xs) og gs = (if cmatch c x then rmatch p xs (grow og [x]) gs else None)"
| "rmatch (Rep c q # p) s og gs =
     try_each (\<lambda>k. rmatch p (drop k s) (grow og (take k s)) gs)
              (counts q (length (takeWhile (cmatch c) s)))"

definition match_at :: "regex \<Rightarrow> string \<Rightarrow> (string list \<times> string) option" where
  "match_at p s = rmatch p s None []"

fun re_search :: "regex \<Rightarrow> string \<Rightarrow> string list option" where
  \<comment> \<open>\<^verbatim>\<open>re.search(p, s)\<close>: the groups of the leftmost match\<close>
  "re_search p [] = map_option fst (match_at p [])"
| "re_search p (c # cs) =
     (case match_at p (c # cs) of Some (gs, r) \<Rightarrow> Some gs | None \<Rightarrow> re_search p cs)"

definition group1 :: "string list \<Rightarrow> string" where
  "group1 gs = (case gs of [] \<Rightarrow> [] | g # _ \<Rightarrow> g)"

fun findall_from :: "regex \<Rightarrow> nat \<Rightarrow> string \<Rightarrow> string list" where
  \<comment> \<open>\<^verbatim>\<open>re.findall(p, s)\<close> for a pattern with one group: the group of every match, left
      to right, matches not overlapping; \<open>skip\<close> characters belong to the previous match\<close>
  "findall_from p skip [] =
     (if skip = 0 then (case match_at p [] of Some (gs, r) \<Rightarrow> [group1 gs] | None \<Rightarrow> []) else [])"
| "findall_from p (Suc k) (c # cs) = findall_from p k cs"
| "findall_from p 0 (c # cs) =
     (case match_at p (c # cs) of
        None \<Rightarrow> findall_from p 0 cs
      | Some (gs, r) \<Rightarrow> group1 gs # findall_from p (length cs - length r) cs)"

definition re_findall :: "regex \<Rightarrow> string \<Rightarrow> string list" where
  "re_findall p s = findall_from p 0 s"

definition lit :: "string \<Rightarrow> regex" where
  "lit s = map (\<lambda>c. One (Lit c)) s"

definition grp :: "regex \<Rightarrow> regex" where
  "grp p = GOpen # p @ [GClose]"

definition rx_bwa_time :: regex where
  "rx_bwa_time = lit ''bwalib run finished in '' @ grp [Rep DigitDot Plus] @ lit '' seconds''"

definition rx_sorting_time :: regex where
  "rx_sorting_time = lit ''Sorting and Marking: '' @ grp [Rep DigitDot Plus] @ lit '' seconds''"

definition rx_bqsr_time :: regex where
  "rx_bqsr_time = lit ''BQSR and writing final BAM:'' @ [Rep Space Star]
                    @ grp [Rep DigitDot Plus] @ lit '' seconds''"

definition rx_time_reading :: regex where
  "rx_time_reading = lit ''Time spent reading:'' @ [Rep Space Star] @ grp [Rep DigitDot Plus]
                       @ [Rep Space Star] @ lit ''seconds''"

definition rx_monitor_time :: regex where
  "rx_monitor_time = lit ''Time spent monitoring'' @ [Rep AnyButNL LazyStar] @ lit '':''
                       @ [Rep Space Star] @ grp [Rep DigitDot Plus]"

definition rx_regions_processed :: regex where
  "rx_regions_processed = lit ''Regions-Processed'' @ [Rep Space Plus, Rep Digit Plus,
       Rep Space Plus, Rep Digit Plus, Rep Space Plus] @ grp [Rep Digit Plus]
       @ [Rep Space Plus, Rep Digit Plus]"

definition rx_regions_per_minute :: regex where
  "rx_regions_per_minute = lit ''Regions/Minute'' @ [Rep Space Plus] @ grp [Rep Digit Plus]"

definition rx_rate_block :: regex where
  \<comment> \<open>compiled with DOTALL: the dot matches every character\<close>
  "rx_rate_block = lit ''Rate stats'' @ [Rep AnyChar LazyStar] @ lit '':'' @ [Rep Space Star]
       @ lit ''min rate:'' @ [Rep Space Star] @ grp [Rep DigitDot Plus]
       @ [Rep AnyChar LazyStar] @ lit ''max rate:'' @ [Rep Space Star] @ grp [Rep DigitDot Plus]
       @ [Rep AnyChar LazyStar] @ lit ''avg rate:'' @ [Rep Space Star] @ grp [Rep DigitDot Plus]"

section \<open>The metrics dict\<close>

type_synonym metrics = "string \<rightharpoonup> pyval"

definition NA :: pyval where
  \<comment> \<open>the default of every \<^verbatim>\<open>.get(key, "NA")\<close> of the row\<close>
  "NA = PStr ''NA''"

definition dict_get :: "metrics \<Rightarrow> string \<Rightarrow> pyval \<Rightarrow> pyval" where
  \<comment> \<open>\<^verbatim>\<open>d.get(key, default)\<close>\<close>
  "dict_get d key dflt = (case d key of None \<Rightarrow> dflt | Some v \<Rightarrow> v)"

definition bind_exc :: "py_exc + 'a \<Rightarrow> ('a \<Rightarrow> py_exc + 'b) \<Rightarrow> py_exc + 'b" where
  "bind_exc r f = (case r of Inl e \<Rightarrow> Inl e | Inr x \<Rightarrow> f x)"

section \<open>\<^verbatim>\<open>parse_parabricks_output\<close>\<close>

type_synonym step = "string \<Rightarrow> metrics \<Rightarrow> py_exc + metrics"

definition set_float :: "string \<Rightarrow> string \<Rightarrow> metrics \<Rightarrow> py_exc + metrics" where
  \<comment> \<open>\<^verbatim>\<open>metrics[key] = float(text)\<close>\<close>
  "set_float key t m =
     (case py_float t of None \<Rightarrow> Inl ValueError | Some v \<Rightarrow> Inr (m(key \<mapsto> v)))"

definition search_rules :: "(string \<times> regex) list" where
  "search_rules =
     [(''bwa_time'', rx_bwa_time),
      (''sorting_time'', rx_sorting_time),
      (''bqsr_time'', rx_bqsr_time),
      (''time_reading'', rx_time_reading),
      (''monitor_time'', rx_monitor_time),
      (''regions_processed'', rx_regions_processed),
      (''regions_per_minute'', rx_regions_per_minute)]"

definition rule_step :: "string \<times> regex \<Rightarrow> step" where
  \<comment> \<open>one iteration of the loop over the rules\<close>
  "rule_step kp output_str m =
     (case re_search (snd kp) output_str of
        None \<Rightarrow> Inr m
      | Some gs \<Rightarrow> set_float (fst kp) (group1 gs) m)"

definition rate_block_step :: step where
  "rate_block_step output_str m =
     (case re_search rx_rate_block output_str of
        Some [g1, g2, g3] \<Rightarrow>
          bind_exc (set_float ''min_rate'' g1 m) (\<lambda>m1.
          bind_exc (set_float ''max_rate'' g2 m1) (\<lambda>m2.
          set_float ''avg_rate'' g3 m2))
      | _ \<Rightarrow> Inr m)"

definition last_match_step :: "string \<times> regex \<Rightarrow> step" where
  \<comment> \<open>the two closing blocks: only when the key is not yet in the dict, the last of all
      matches\<close>
  "last_match_step kp output_str m =
     (if fst kp \<in> dom m then Inr m
      else (case re_findall (snd kp) output_str of
              [] \<Rightarrow> Inr m
            | g # gs \<Rightarrow> set_float (fst kp) (last (g # gs)) m))"

definition parse_steps :: "step list" where
  \<comment> \<open>the statements of the function body, in order\<close>
  "parse_steps = map rule_step search_rules @
     [rate_block_step,
      last_match_step (''regions_processed'', rx_regions_processed),
      last_match_step (''regions_per_minute'', rx_regions_per_minute)]"

fun run_steps :: "step list \<Rightarrow> string \<Rightarrow> metrics \<Rightarrow> py_exc + metrics" where
  "run_steps [] output_str m = Inr m"
| "run_steps (st # sts) output_str m = bind_exc (st output_str m) (run_steps sts output_str)"

definition parse_parabricks_output :: "string \<Rightarrow> py_exc + metrics" where
  "parse_parabricks_output output_str = run_steps parse_steps output_str Map.empty"

definition metric_of :: "py_exc + metrics \<Rightarrow> string \<Rightarrow> pyval option" where
  \<comment> \<open>the entry of a key in the dict a call returned, if it returned one\<close>
  "metric_of r key = (case r of Inl e \<Rightarrow> None | Inr m \<Rightarrow> m key)"

section \<open>External processes\<close>

datatype proc = SpawnFailed | Exited int string string
  \<comment> \<open>what \<^verbatim>\<open>subprocess.run(cmd, capture_output=True, text=True)\<close> observes: the
      program could not be started, or its return code, stdout and stderr\<close>

definition run_checked :: "proc \<Rightarrow> py_exc + string" where
  \<comment> \<open>\<^verbatim>\<open>subprocess.run(..., check=True).stdout\<close>\<close>
  "run_checked p =
     (case p of
        SpawnFailed \<Rightarrow> Inl OSError
      | Exited rc out err \<Rightarrow> if rc \<noteq> 0 then Inl (CalledProcessError rc err) else Inr out)"

section \<open>\<^verbatim>\<open>count_aligned_reads\<close>\<close>

definition first_int :: "string \<Rightarrow> py_exc + int" where
  \<comment> \<open>\<^verbatim>\<open>int(line.split()[0])\<close>\<close>
  "first_int line =
     (case py_split line of
        [] \<Rightarrow> Inl IndexError
      | w # _ \<Rightarrow> (case py_int w of None \<Rightarrow> Inl ValueError | Some v \<Rightarrow> Inr v))"

fun flagstat_loop :: "string list \<Rightarrow> int option \<times> int option \<Rightarrow> py_exc + (int option \<times> int option)" where
  "flagstat_loop [] acc = Inr acc"
| "flagstat_loop (line # ls) (total_reads, properly_paired) =
     bind_exc (if contains line ''in total''
               then bind_exc (first_int line) (\<lambda>v. Inr (Some v)) else Inr total_reads) (\<lambda>t.
     bind_exc (if contains line ''properly paired''
               then bind_exc (first_int line) (\<lambda>v. Inr (Some v)) else Inr properly_paired) (\<lambda>p.
     flagstat_loop ls (t, p)))"

definition truthy :: "int option \<Rightarrow> bool" where
  \<comment> \<open>the truth value of \<^verbatim>\<open>None\<close> or an int\<close>
  "truthy v = (case v of None \<Rightarrow> False | Some n \<Rightarrow> n \<noteq> 0)"

definition parsed_flagstat :: "proc \<Rightarrow> py_exc + (int option \<times> int option)" where
  \<comment> \<open>the two counts when the loop over the lines ends\<close>
  "parsed_flagstat p =
     bind_exc (run_checked p) (\<lambda>out. flagstat_loop (py_splitlines out) (None, None))"

definition count_aligned_reads :: "proc \<Rightarrow> int option \<times> int option" where
  "count_aligned_reads p =
     (case parsed_flagstat p of
        Inl e \<Rightarrow> (None, None)
      | Inr (total_reads, properly_paired) \<Rightarrow>
          if truthy total_reads \<and> truthy properly_paired then (total_reads, properly_paired)
          else (None, None))"

section \<open>\<^verbatim>\<open>get_gpu_usage_monitor\<close>\<close>

fun read_gpu_lines :: "string list \<Rightarrow> int \<times> int \<Rightarrow> (int \<times> int) option" where
  \<comment> \<open>the loop over the lines of one probe; \<open>None\<close> when a line raises\<close>
  "read_gpu_lines [] peaks = Some peaks"
| "read_gpu_lines (line # ls) (peak_util, peak_mem) =
     (case map py_int (py_split_on (CHR '','') line) of
        [Some util, Some mem] \<Rightarrow> read_gpu_lines ls (max peak_util util, max peak_mem mem)
      | _ \<Rightarrow> None)"

definition gpu_tick :: "proc \<Rightarrow> int \<times> int \<Rightarrow> (int \<times> int) option" where
  \<comment> \<open>the body of the \<^verbatim>\<open>try\<close>: \<open>None\<close> when it raises\<close>
  "gpu_tick p peaks =
     (case run_checked p of
        Inl e \<Rightarrow> None
      | Inr out \<Rightarrow> read_gpu_lines (py_splitlines (py_strip out)) peaks)"

fun monitor_loop :: "rat \<Rightarrow> rat \<Rightarrow> (rat \<times> proc) list \<Rightarrow> int \<times> int \<Rightarrow> pyval \<times> pyval" where
  \<comment> \<open>every iteration reads the clock and then runs the probe; the list gives, per
      iteration, the clock reading and what the probe does; the window has closed when
      the list ends\<close>
  "monitor_loop duration start_time [] (peak_util, peak_mem) = (PInt peak_util, PInt peak_mem)"
| "monitor_loop duration start_time ((now, p) # ticks) (peak_util, peak_mem) =
     (if now - start_time < duration
      then (case gpu_tick p (peak_util, peak_mem) of
              None \<Rightarrow> (PNone, PNone)
            | Some peaks \<Rightarrow> monitor_loop duration start_time ticks peaks)
      else (PInt peak_util, PInt peak_mem))"

definition get_gpu_usage_monitor :: "rat \<Rightarrow> rat \<Rightarrow> (rat \<times> proc) list \<Rightarrow> pyval \<times> pyval" where
  "get_gpu_usage_monitor duration start_time ticks = monitor_loop duration start_time ticks (0, 0)"

section \<open>The stage runners of \<^verbatim>\<open>pipeline_functions.py\<close>\<close>

definition run_stage :: "proc \<Rightarrow> string option \<Rightarrow> py_exc + (string \<times> bool)" where
  \<comment> \<open>the \<^verbatim>\<open>try\<close> block both runners share: only CalledProcessError is handled;
      the second argument is the content of the stage's log file, \<open>None\<close> when it
      cannot be opened\<close>
  "run_stage p log_file =
     (case p of
        SpawnFailed \<Rightarrow> Inl OSError
      | Exited rc out err \<Rightarrow>
          if rc \<noteq> 0 then Inr (err, False)
          else (case log_file of None \<Rightarrow> Inl OSError | Some l \<Rightarrow> Inr (out @ l, True)))"

definition run_parabricks_fq2bam :: "proc \<Rightarrow> string option \<Rightarrow> py_exc + (string \<times> bool)" where
  "run_parabricks_fq2bam = run_stage"

definition run_parabricks_haplotypecaller :: "proc \<Rightarrow> string option \<Rightarrow> py_exc + (string \<times> bool)" where
  "run_parabricks_haplotypecaller = run_stage"

section \<open>\<^verbatim>\<open>parse_quality_reports\<close>\<close>

text \<open>
  The three reports are read inside one \<^verbatim>\<open>try\<close>; the dict is filled as the reading
  goes and is returned whatever happens. A loop returns the dict it has reached and
  the exception that stopped it, if any.
\<close>

datatype log_entry = LogError string "py_exc option"
  \<comment> \<open>\<^verbatim>\<open>logging.error\<close>: the text and the exception formatted into it\<close>

fun insert_size_loop :: "string list \<Rightarrow> metrics \<Rightarrow> metrics \<times> py_exc option" where
  "insert_size_loop [] m = (m, None)"
| "insert_size_loop [line] m = (m, None)"
| "insert_size_loop (line # nxt # ls) m =
     (if contains line ''MEAN_INSERT_SIZE''
      then (case py_split nxt of
              [] \<Rightarrow> (m, Some IndexError)
            | w # _ \<Rightarrow>
                (case py_float w of
                   None \<Rightarrow> (m, Some ValueError)
                 | Some v \<Rightarrow> insert_size_loop (nxt # ls) (m(''mean_insert_size'' \<mapsto> v))))
      else insert_size_loop (nxt # ls) m)"

definition nth_opt :: "'a list \<Rightarrow> nat \<Rightarrow> 'a option" where
  "nth_opt xs i = (if i < length xs then Some (xs ! i) else None)"

fun gc_bias_loop :: "string list \<Rightarrow> metrics \<Rightarrow> metrics \<times> py_exc option" where
  "gc_bias_loop [] m = (m, None)"
| "gc_bias_loop (line # ls) m =
     (if startswith line ''All Reads''
      then (case nth_opt (py_split line) 8 of
              None \<Rightarrow> (m, Some IndexError)
            | Some w \<Rightarrow>
                (case py_float w of
                   None \<Rightarrow> (m, Some ValueError)
                 | Some v \<Rightarrow> gc_bias_loop ls (m(''gc_bias'' \<mapsto> v))))
      else gc_bias_loop ls m)"

fun quality_loop :: "string list \<Rightarrow> bool \<Rightarrow> pyval list \<Rightarrow> py_exc + pyval list" where
  "quality_loop [] header_passed qualities = Inr qualities"
| "quality_loop (line # ls) header_passed qualities =
     (if py_strip line \<noteq> [] \<and> \<not> startswith line ''#''
      then (if \<not> header_passed then quality_loop ls True qualities
            else (case py_split line of
                    _ # p1 # _ \<Rightarrow>
                      if all_digits (filter (\<lambda>c. c \<noteq> CHR ''.'') p1)
                      then (case py_float p1 of
                              None \<Rightarrow> Inl ValueError
                            | Some v \<Rightarrow> quality_loop ls header_passed (qualities @ [v]))
                      else quality_loop ls header_passed qualities
                  | _ \<Rightarrow> quality_loop ls header_passed qualities))
      else quality_loop ls header_passed qualities)"

definition mean_quality_value :: "pyval list \<Rightarrow> pyval" where
  \<comment> \<open>\<^verbatim>\<open>sum(qualities) / len(qualities) if qualities else 0\<close>\<close>
  "mean_quality_value qualities =
     (if qualities = [] then PInt 0 else fl_div_int (fl_sum qualities) (int (length qualities)))"

record quality_files =
  insert_size_txt :: "string option"
  gcbias_summary_txt :: "string option"
  mean_quality_by_cycle_txt :: "string option"

definition quality_try :: "quality_files \<Rightarrow> metrics \<times> py_exc option" where
  \<comment> \<open>the body of the \<^verbatim>\<open>try\<close>; a file that cannot be opened is \<open>None\<close>\<close>
  "quality_try qf =
     (case insert_size_txt qf of
        None \<Rightarrow> (Map.empty, Some OSError)
      | Some t1 \<Rightarrow>
          (case insert_size_loop (file_lines t1) Map.empty of
             (m1, Some e) \<Rightarrow> (m1, Some e)
           | (m1, None) \<Rightarrow>
               (case gcbias_summary_txt qf of
                  None \<Rightarrow> (m1, Some OSError)
                | Some t2 \<Rightarrow>
                    (case gc_bias_loop (file_lines t2) m1 of
                       (m2, Some e) \<Rightarrow> (m2, Some e)
                     | (m2, None) \<Rightarrow>
                         (case mean_quality_by_cycle_txt qf of
                            None \<Rightarrow> (m2, Some OSError)
                          | Some t3 \<Rightarrow>
                              (case quality_loop (file_lines t3) False [] of
                                 Inl e \<Rightarrow> (m2, Some e)
                               | Inr qs \<Rightarrow>
                                   (m2(''mean_quality'' \<mapsto> mean_quality_value qs), None)))))))"

definition parse_quality_reports :: "string \<Rightarrow> quality_files \<Rightarrow> metrics \<times> log_entry list" where
  "parse_quality_reports sample_id qf =
     (case quality_try qf of
        (m, None) \<Rightarrow> (m, [])
      | (m, Some e) \<Rightarrow>
          (m, [LogError (''Error parsing quality reports for '' @ sample_id @ '': '') (Some e)]))"

section \<open>The per-sample metrics file\<close>

function show_digits :: "int \<Rightarrow> string" where
  \<comment> \<open>the decimal digits of a number that is not negative\<close>
  "show_digits n =
     (if n < 10 then [char_of (48 + n)] else show_digits (n div 10) @ [char_of (48 + n mod 10)])"
  by pat_completeness auto
termination
  by (relation "measure nat") auto

declare show_digits.simps [simp del]

definition show_int :: "int \<Rightarrow> string" where
  "show_int i = (if i < 0 then CHR ''-'' # show_digits (- i) else show_digits i)"

definition needs_quote :: "string \<Rightarrow> bool" where
  "needs_quote s = list_ex (\<lambda>c. c \<in> set [CHR '','', CHR 0x22, CHR 0x0D, CHR 0x0A]) s"

definition csv_quote :: "string \<Rightarrow> string" where
  "csv_quote s = [CHR 0x22] @ concat (map (\<lambda>c. if c = CHR 0x22 then [c, c] else [c]) s) @ [CHR 0x22]"

definition csv_field :: "(rat \<Rightarrow> string) \<Rightarrow> pyval \<Rightarrow> string" where
  \<comment> \<open>what \<^verbatim>\<open>csv.writer\<close> writes for one value: nothing for \<^verbatim>\<open>None\<close>, the text of
      a string (quoted when it needs it), the digits of an int; how a finite float
      prints is the parameter \<open>repr\<close>\<close>
  "csv_field repr v =
     (case v of
        PNone \<Rightarrow> []
      | PStr s \<Rightarrow> if needs_quote s then csv_quote s else s
      | PInt i \<Rightarrow> show_int i
      | PFloat x \<Rightarrow> repr x
      | PInf \<Rightarrow> ''inf''
      | PNegInf \<Rightarrow> ''-inf''
      | PNaN \<Rightarrow> ''nan'')"

definition header :: "string list" where
  "header =
     [''Sample'', ''Reads Processed'', ''Bases Processed'', ''fq2bam Time (sec)'',
      ''HaplotypeCaller Time (sec)'', ''BWA Time (sec)'', ''Sorting Time (sec)'',
      ''BQSR Time (sec)'', ''Alignment Rate (%)'', ''Variants Called'', ''Regions Processed'',
      ''Regions/Minute'', ''CPU Usage (%)'', ''RAM Usage (MB)'', ''Peak GPU Usage (%)'',
      ''Peak GPU Memory (MB)'', ''Disk Read Speed (MB/s)'', ''Disk Write Speed (MB/s)'',
      ''Time Spent Reading (sec)'', ''Min Rate (bases/GPU/min)'', ''Max Rate (bases/GPU/min)'',
      ''Avg Rate (bases/GPU/min)'', ''Monitor Time (sec)'', ''Mean Insert Size'', ''GC Bias'',
      ''Mean Quality Score'']"

record row_inputs =
  \<comment> \<open>the local variables of \<^verbatim>\<open>process_sample\<close> that the row is built from\<close>
  sample_id :: string
  total_reads :: int
  bases_processed :: int
  fq2bam_time :: rat
  haplotypecaller_time :: rat
  fq2bam_metrics :: metrics
  hc_metrics :: metrics
  alignment_rate :: pyval
  num_variants :: pyval
  cpu_usage :: rat
  ram_usage :: rat
  gpu_util :: pyval
  gpu_mem :: pyval
  disk_read_speed :: pyval
  disk_write_speed :: pyval
  quality_metrics :: metrics

definition build_row :: "row_inputs \<Rightarrow> pyval list" where
  "build_row v =
     [PStr (sample_id v), PInt (total_reads v), PInt (bases_processed v), PFloat (fq2bam_time v),
      PFloat (haplotypecaller_time v),
      dict_get (fq2bam_metrics v) ''bwa_time'' NA, dict_get (fq2bam_metrics v) ''sorting_time'' NA,
      dict_get (fq2bam_metrics v) ''bqsr_time'' NA, alignment_rate v, num_variants v,
      dict_get (hc_metrics v) ''regions_processed'' NA,
      dict_get (hc_metrics v) ''regions_per_minute'' NA,
      PFloat (cpu_usage v), PFloat (ram_usage v), gpu_util v, gpu_mem v,
      disk_read_speed v, disk_write_speed v,
      dict_get (fq2bam_metrics v) ''time_reading'' NA, dict_get (fq2bam_metrics v) ''min_rate'' NA,
      dict_get (fq2bam_metrics v) ''max_rate'' NA, dict_get (fq2bam_metrics v) ''avg_rate'' NA,
      dict_get (fq2bam_metrics v) ''monitor_time'' NA,
      dict_get (quality_metrics v) ''mean_insert_size'' NA,
      dict_get (quality_metrics v) ''gc_bias'' NA, dict_get (quality_metrics v) ''mean_quality'' NA]"

definition metrics_file :: "(rat \<Rightarrow> string) \<Rightarrow> pyval list \<Rightarrow> string list list" where
  \<comment> \<open>the fields of the two rows written to \<^verbatim>\<open><sample>_metrics.csv\<close>\<close>
  "metrics_file repr row = [map (csv_field repr \<circ> PStr) header, map (csv_field repr) row]"

fun column_of :: "string \<Rightarrow> string list \<Rightarrow> string list \<Rightarrow> string option" where
  \<comment> \<open>the field of a data row under a header name\<close>
  "column_of name (h # hs) (f # fs) = (if h = name then Some f else column_of name hs fs)"
| "column_of name hs fs = None"

definition file_column :: "string \<Rightarrow> string list list \<Rightarrow> string option" where
  "file_column name rows = (case rows of [hd_row, data_row] \<Rightarrow> column_of name hd_row data_row | _ \<Rightarrow> None)"

section \<open>\<^verbatim>\<open>process_sample\<close>\<close>

record sample_env =
  \<comment> \<open>everything one call of \<^verbatim>\<open>process_sample\<close> observes outside itself\<close>
  conda_default_env :: string
  fastq1_exists :: bool
  fastq2_exists :: bool
  fastq1_lines :: "int option"  \<comment> \<open>lines of the first FASTQ; \<open>None\<close> when reading raises\<close>
  fq2bam_proc :: proc
  fq2bam_log_file :: "string option"
  fq2bam_elapsed :: rat
  hc_proc :: proc
  hc_log_file :: "string option"
  hc_elapsed :: rat
  flagstat_proc :: proc
  variants_counted :: "int option"  \<comment> \<open>what \<^verbatim>\<open>count_variants\<close> returns\<close>
  cpu_ram :: "rat \<times> rat"  \<comment> \<open>what \<^verbatim>\<open>get_cpu_ram_usage\<close> returns\<close>
  gpu_start :: rat
  gpu_ticks :: "(rat \<times> proc) list"
  disk_io :: "(rat \<times> rat) option"  \<comment> \<open>what \<^verbatim>\<open>get_disk_io\<close> returns, \<open>None\<close> for its
      \<^verbatim>\<open>(None, None)\<close>\<close>
  quality :: quality_files

datatype event = MonitorStarted | Fq2bamRun | HaplotypecallerRun

datatype outcome =
    SystemExit int  \<comment> \<open>\<^verbatim>\<open>exit(1)\<close> of \<^verbatim>\<open>check_conda_env\<close>\<close>
  | Returned  \<comment> \<open>a bare \<^verbatim>\<open>return\<close>: no metrics file is written\<close>
  | Raised py_exc
  | Wrote "pyval list"  \<comment> \<open>the metrics file is written with this data row\<close>

definition check_conda_env :: "string \<Rightarrow> bool" where
  "check_conda_env current_env = (current_env = ''bioinfo_env'')"

definition count_reads :: "int option \<Rightarrow> int option" where
  \<comment> \<open>\<^verbatim>\<open>num_lines // 4\<close>, or \<^verbatim>\<open>None\<close> from the handler\<close>
  "count_reads num_lines = map_option (\<lambda>n. n div 4) num_lines"

definition alignment_rate_of :: "int \<Rightarrow> int \<Rightarrow> py_exc + pyval" where
  \<comment> \<open>\<^verbatim>\<open>(properly_paired_aligned / total_reads_aligned) * 100 if total_reads_aligned > 0 else 0\<close>:
      the division of the two ints raises OverflowError when the quotient is too large
      for a float\<close>
  "alignment_rate_of total_reads_aligned properly_paired_aligned =
     (if total_reads_aligned > 0
      then bind_exc (int_true_div properly_paired_aligned total_reads_aligned)
             (\<lambda>ratio. Inr (fl_mul_int ratio 100))
      else Inr (PInt 0))"

definition opt_float :: "rat option \<Rightarrow> pyval" where
  "opt_float v = (case v of None \<Rightarrow> PNone | Some x \<Rightarrow> PFloat x)"

definition opt_int :: "int option \<Rightarrow> pyval" where
  "opt_int v = (case v of None \<Rightarrow> PNone | Some x \<Rightarrow> PInt x)"

definition after_stages :: "string \<Rightarrow> sample_env \<Rightarrow> int \<Rightarrow> metrics \<Rightarrow> metrics \<Rightarrow> outcome" where
  \<comment> \<open>from \<^verbatim>\<open>count_aligned_reads\<close> to the end of the function\<close>
  "after_stages sid env reads fq2bam_m hc_m =
     (case count_aligned_reads (flagstat_proc env) of
        (Some total_reads_aligned, Some properly_paired_aligned) \<Rightarrow>
          (case alignment_rate_of total_reads_aligned properly_paired_aligned of
             Inl e \<Rightarrow> Raised e
           | Inr rate \<Rightarrow>
               Wrote (build_row \<lparr>
                 sample_id = sid,
                 total_reads = reads,
                 bases_processed = reads * 150,
                 fq2bam_time = fq2bam_elapsed env,
                 haplotypecaller_time = hc_elapsed env,
                 fq2bam_metrics = fq2bam_m,
                 hc_metrics = hc_m,
                 alignment_rate = rate,
                 num_variants = opt_int (variants_counted env),
                 cpu_usage = fst (cpu_ram env),
                 ram_usage = snd (cpu_ram env),
                 gpu_util = fst (get_gpu_usage_monitor 180 (gpu_start env) (gpu_ticks env)),
                 gpu_mem = snd (get_gpu_usage_monitor 180 (gpu_start env) (gpu_ticks env)),
                 disk_read_speed = opt_float (map_option fst (disk_io env)),
                 disk_write_speed = opt_float (map_option snd (disk_io env)),
                 quality_metrics = fst (parse_quality_reports sid (quality env)) \<rparr>))
      | _ \<Rightarrow> Returned)"

definition process_sample :: "string \<Rightarrow> sample_env \<Rightarrow> event list \<times> outcome" where
  \<comment> \<open>the stages that were started, in order, and how the call ended\<close>
  "process_sample sid env =
     (if \<not> check_conda_env (conda_default_env env) then ([], SystemExit 1)
      else if \<not> fastq1_exists env \<or> \<not> fastq2_exists env then ([], Returned)
      else (case count_reads (fastq1_lines env) of
        None \<Rightarrow> ([], Returned)
      | Some reads \<Rightarrow>
         (case run_parabricks_fq2bam (fq2bam_proc env) (fq2bam_log_file env) of
            Inl e \<Rightarrow> ([MonitorStarted, Fq2bamRun], Raised e)
          | Inr (fq2bam_output, success) \<Rightarrow>
             if \<not> success then ([MonitorStarted, Fq2bamRun], Returned)
             else (case parse_parabricks_output fq2bam_output of
                Inl e \<Rightarrow> ([MonitorStarted, Fq2bamRun], Raised e)
              | Inr fq2bam_m \<Rightarrow>
                 (case run_parabricks_haplotypecaller (hc_proc env) (hc_log_file env) of
                    Inl e \<Rightarrow> ([MonitorStarted, Fq2bamRun, HaplotypecallerRun], Raised e)
                  | Inr (hc_output, success_hc) \<Rightarrow>
                     if \<not> success_hc
                     then ([MonitorStarted, Fq2bamRun, HaplotypecallerRun], Returned)
                     else (case parse_parabricks_output hc_output of
                        Inl e \<Rightarrow> ([MonitorStarted, Fq2bamRun, HaplotypecallerRun], Raised e)
                      | Inr hc_m \<Rightarrow>
                         ([MonitorStarted, Fq2bamRun, HaplotypecallerRun],
                          after_stages sid env reads fq2bam_m hc_m)))))))"

section \<open>\<^verbatim>\<open>process_samples\<close>\<close>





section \<open>\<^verbatim>\<open>merge_metrics\<close>\<close>

definition endswith :: "string \<Rightarrow> string \<Rightarrow> bool" where
  "endswith s suffix = startswith (rev s) (rev suffix)"

fun merge_loop :: "(string \<times> string list list) list \<Rightarrow> bool \<Rightarrow> string list list \<Rightarrow> string list list" where
  \<comment> \<open>the directory listing with the rows \<^verbatim>\<open>csv.reader\<close> gives for each file\<close>
  "merge_loop [] header_written merged_rows = merged_rows"
| "merge_loop ((filename, rows) # rest) header_written merged_rows =
     (if endswith filename ''_metrics.csv''
      then (case rows of
              [] \<Rightarrow> merge_loop rest header_written merged_rows
            | r0 # rs \<Rightarrow>
                merge_loop rest True
                  ((if \<not> header_written then merged_rows @ [r0] else merged_rows) @ rs))
      else merge_loop rest header_written merged_rows)"

definition merge_metrics :: "(string \<times> string list list) list \<Rightarrow> string list list" where
  \<comment> \<open>the rows written to the merged report\<close>
  "merge_metrics listing = merge_loop listing False []"

section \<open>Notions used to state the properties, and sample inputs\<close>

definition captured :: "metrics \<Rightarrow> string \<Rightarrow> bool" where
  \<comment> \<open>the key is in the dict with a value that is neither \<^verbatim>\<open>"NA"\<close> nor \<^verbatim>\<open>None\<close>\<close>
  "captured m key = (case m key of None \<Rightarrow> False | Some v \<Rightarrow> v \<noteq> NA \<and> v \<noteq> PNone)"

definition wrote :: "outcome \<Rightarrow> bool" where
  "wrote r = (case r of Wrote row \<Rightarrow> True | _ \<Rightarrow> False)"

definition ratio_repr :: "rat \<Rightarrow> string" where
  \<comment> \<open>a stand-in for the way Python prints a float, for the examples that need one\<close>
  "ratio_repr x = show_int (fst (quotient_of x)) @ ''/'' @ show_int (snd (quotient_of x))"

definition LF :: string where
  "LF = [CHR 0x0A]"

definition progress_log :: string where
  "progress_log = ''Regions-Processed 1 2 1000 3'' @ LF @ ''Regions-Processed 4 5 2500 6''"

definition flagstat_200_180 :: string where
  "flagstat_200_180 = ''200 + 0 in total (QC-passed reads + QC-failed reads)'' @ LF
     @ ''180 + 0 properly paired (90.00% : N/A)'' @ LF"

definition flagstat_empty_bam :: string where
  "flagstat_empty_bam = ''0 + 0 in total (QC-passed reads + QC-failed reads)'' @ LF
     @ ''0 + 0 properly paired (N/A : N/A)'' @ LF"

definition insert_size_report :: string where
  "insert_size_report = ''MEDIAN_INSERT_SIZE MEAN_INSERT_SIZE'' @ LF @ ''310.5 300'' @ LF"

definition gcbias_report :: string where
  "gcbias_report = ''All Reads a b c d e f 1.5 g'' @ LF"

definition quality_by_cycle_report :: string where
  "quality_by_cycle_report = ''CYCLE MEAN_QUALITY'' @ LF @ ''1 30.0'' @ LF @ ''2 32.0'' @ LF"

definition all_quality_files :: quality_files where
  "all_quality_files = \<lparr>
     insert_size_txt = Some insert_size_report,
     gcbias_summary_txt = Some gcbias_report,
     mean_quality_by_cycle_txt = Some quality_by_cycle_report \<rparr>"

definition good_env :: sample_env where
  \<comment> \<open>a sample for which everything works\<close>
  "good_env = \<lparr>
     conda_default_env = ''bioinfo_env'',
     fastq1_exists = True,
     fastq2_exists = True,
     fastq1_lines = Some 800,
     fq2bam_proc = Exited 0 (''bwalib run finished in 12.5 seconds'' @ LF) [],
     fq2bam_log_file = Some [],
     fq2bam_elapsed = 40,
     hc_proc = Exited 0 (''Regions/Minute 42'' @ LF) [],
     hc_log_file = Some [],
     hc_elapsed = 20,
     flagstat_proc = Exited 0 flagstat_200_180 [],
     variants_counted = Some 7,
     cpu_ram = (50, 1024),
     gpu_start = 0,
     gpu_ticks = [(0, Exited 0 ''50, 1000'' [])],
     disk_io = Some (1, 2),
     quality = all_quality_files \<rparr>"

definition empty_bam_env :: sample_env where
  \<comment> \<open>both stages succeed, and the alignment holds no reads\<close>
  "empty_bam_env = good_env\<lparr>flagstat_proc := Exited 0 flagstat_empty_bam []\<rparr>"

definition fq2bam_fails_env :: sample_env where
  "fq2bam_fails_env = good_env\<lparr>fq2bam_proc := Exited 1 [] ''out of memory''\<rparr>"

definition written_file :: "(rat \<Rightarrow> string) \<Rightarrow> outcome \<Rightarrow> string list list" where
  \<comment> \<open>the rows of the metrics file a call leaves behind, none when it wrote no file\<close>
  "written_file repr r = (case r of Wrote row \<Rightarrow> metrics_file repr row | _ \<Rightarrow> [])"

definition no_variants_env :: sample_env where
  \<comment> \<open>as \<open>good_env\<close>, but \<^verbatim>\<open>count_variants\<close> returns \<^verbatim>\<open>None\<close>\<close>
  "no_variants_env = good_env\<lparr>variants_counted := None\<rparr>"

definition bare_inputs :: row_inputs where
  \<comment> \<open>row values of a sample for which no pattern matched and no report was read\<close>
  "bare_inputs = \<lparr>
     sample_id = ''S1'', total_reads = 200, bases_processed = 30000, fq2bam_time = 40,
     haplotypecaller_time = 20, fq2bam_metrics = Map.empty, hc_metrics = Map.empty,
     alignment_rate = PFloat 90, num_variants = PInt 7, cpu_usage = 50, ram_usage = 1024,
     gpu_util = PInt 50, gpu_mem = PInt 1000, disk_read_speed = PFloat 1,
     disk_write_speed = PFloat 2, quality_metrics = Map.empty \<rparr>"

definition gcbias_missing :: quality_files where
  \<comment> \<open>the insert-size report is there, the bias summary cannot be opened\<close>
  "gcbias_missing = all_quality_files\<lparr>gcbias_summary_txt := None\<rparr>"

definition three_reports :: "(string \<times> string list list) list" where
  \<comment> \<open>three per-sample files, the second without the column \<open>Opt\<close>\<close>
  "three_reports =
     [(''a_metrics.csv'', [[''Sample'', ''Reads'', ''Opt''], [''a'', ''1'', ''2'']]),
      (''b_metrics.csv'', [[''Sample'', ''Reads''], [''b'', ''3'']]),
      (''c_metrics.csv'', [[''Sample'', ''Reads'', ''Opt''], [''c'', ''4'', ''5'']])]"

definition metric_files :: "(string \<times> string list list) list \<Rightarrow> string list list list" where
  \<comment> \<open>the rows of the files \<^verbatim>\<open>merge_metrics\<close> takes rows from: named
      \<^verbatim>\<open>*_metrics.csv\<close> and not empty\<close>
  "metric_files listing =
     map snd (filter (\<lambda>(filename, rows). endswith filename ''_metrics.csv'' \<and> rows \<noteq> []) listing)"

definition one_timing :: metrics where
  \<comment> \<open>a dict in which one key has been captured\<close>
  "one_timing = [''sorting_time'' \<mapsto> PFloat 3]"







definition float_value :: "pyval \<Rightarrow> bool" where
  "float_value v = (case v of PFloat x \<Rightarrow> True | PInf \<Rightarrow> True | PNegInf \<Rightarrow> True
                    | PNaN \<Rightarrow> True | _ \<Rightarrow> False)"





definition third_missing :: quality_files where
  \<comment> \<open>the first two reports are there, the quality-by-cycle report cannot be opened\<close>
  "third_missing = all_quality_files\<lparr>mean_quality_by_cycle_txt := None\<rparr>"




definition no_sentinel :: "metrics \<Rightarrow> bool" where
  \<comment> \<open>no key of the dict holds \<^verbatim>\<open>"NA"\<close> or \<^verbatim>\<open>None\<close>\<close>
  "no_sentinel m = (\<forall>key. m key \<noteq> Some NA \<and> m key \<noteq> Some PNone)"



section \<open>Floats are floats\<close>

lemma round_ratio_float: "float_value (round_ratio neg n d)"
  by (simp add: round_ratio_def float_value_def Let_def)


lemma decimal_float_float: "decimal_float s = Some v \<Longrightarrow> float_value v"
  by (auto simp: decimal_float_def round_ratio_float split: option.splits prod.splits if_splits)

lemma unsigned_float_float: "unsigned_float s = Some v \<Longrightarrow> float_value v"
  by (auto simp: unsigned_float_def float_value_def split: if_splits option.splits
      dest: decimal_float_float)

lemma fl_neg_float: "float_value v \<Longrightarrow> float_value (fl_neg v)"
  by (cases v) (simp_all add: fl_neg_def float_value_def)

lemma py_float_float: "py_float s = Some v \<Longrightarrow> float_value v"
  by (auto simp: py_float_def split: list.splits if_splits
      dest: unsigned_float_float intro: fl_neg_float)

lemma float_value_stored: "float_value v \<Longrightarrow> v \<noteq> NA \<and> v \<noteq> PNone"
  by (cases v) (simp_all add: float_value_def NA_def)





lemma quality_loop_floats:
  "quality_loop ls hp qs = Inr qs' \<Longrightarrow> list_all float_value qs \<Longrightarrow> list_all float_value qs'"
  by (induction ls hp qs rule: quality_loop.induct)
     (auto split: if_splits list.splits option.splits dest: py_float_float)


section \<open>The resource monitor aborts on a failed probe\<close>





section \<open>Which occurrence of a progress counter is kept\<close>

lemma bind_exc_Inr: "bind_exc r f = Inr y \<longleftrightarrow> (\<exists>x. r = Inr x \<and> f x = Inr y)"
  by (cases r) (simp_all add: bind_exc_def)

lemma findall_none: "re_search p s = None \<Longrightarrow> findall_from p k s = []"
proof (induction s arbitrary: k)
  case Nil
  then show ?case by (auto split: option.splits)
next
  case (Cons c cs)
  from Cons.prems have m: "match_at p (c # cs) = None" and r: "re_search p cs = None"
    by (auto split: option.splits)
  show ?case
  proof (cases k)
    case 0
    with m Cons.IH [OF r] show ?thesis by simp
  next
    case (Suc j)
    with Cons.IH [OF r] show ?thesis by simp
  qed
qed

lemma set_float_Inr:
  "set_float key t m = Inr m' \<Longrightarrow> \<exists>v. py_float t = Some v \<and> m' = m(key \<mapsto> v)"
  by (auto simp: set_float_def split: option.splits)

lemma rule_step_other:
  "rule_step (k, p) s m = Inr m' \<Longrightarrow> k \<noteq> key \<Longrightarrow> m' key = m key"
  by (auto simp: rule_step_def dest!: set_float_Inr split: option.splits)

lemma rule_step_own:
  "rule_step (k, p) s m = Inr m' \<Longrightarrow> m k = None \<Longrightarrow>
   m' k = (case re_search p s of None \<Rightarrow> None
           | Some gs \<Rightarrow> py_float (group1 gs))"
  by (auto simp: rule_step_def dest!: set_float_Inr split: option.splits)

lemma rule_step_dom:
  "rule_step (k, p) s m = Inr m' \<Longrightarrow> re_search p s \<noteq> None \<Longrightarrow> k \<in> dom m'"
  by (auto simp: rule_step_def dest!: set_float_Inr split: option.splits)

lemma rate_block_step_other:
  "rate_block_step s m = Inr m' \<Longrightarrow> key \<notin> {''min_rate'', ''max_rate'', ''avg_rate''} \<Longrightarrow>
   m' key = m key"
  by (auto simp: rate_block_step_def bind_exc_Inr dest!: set_float_Inr
           split: option.splits list.splits)

text \<open>
  The closing block of a key never runs its \<^verbatim>\<open>findall\<close> branch after the loop has
  searched the same pattern: either the search matched and the key is in the dict, or
  nothing matches and \<^verbatim>\<open>findall\<close> is empty.
\<close>

lemma last_match_step_dead:
  "(re_search p s \<noteq> None \<longrightarrow> k \<in> dom m) \<Longrightarrow> last_match_step (k, p) s m = Inr m"
  by (cases "re_search p s") (auto simp: last_match_step_def re_findall_def findall_none)

lemma parse_regions_processed_first:
  assumes "parse_parabricks_output s = Inr m"
  shows "m ''regions_processed'' =
    (case re_search rx_regions_processed s of None \<Rightarrow> None
     | Some gs \<Rightarrow> py_float (group1 gs))"
proof -
  from assms obtain m1 m2 m3 m4 m5 m6 m7 m8 m9 where
    s1: "rule_step (''bwa_time'', rx_bwa_time) s Map.empty = Inr m1" and
    s2: "rule_step (''sorting_time'', rx_sorting_time) s m1 = Inr m2" and
    s3: "rule_step (''bqsr_time'', rx_bqsr_time) s m2 = Inr m3" and
    s4: "rule_step (''time_reading'', rx_time_reading) s m3 = Inr m4" and
    s5: "rule_step (''monitor_time'', rx_monitor_time) s m4 = Inr m5" and
    s6: "rule_step (''regions_processed'', rx_regions_processed) s m5 = Inr m6" and
    s7: "rule_step (''regions_per_minute'', rx_regions_per_minute) s m6 = Inr m7" and
    s8: "rate_block_step s m7 = Inr m8" and
    s9: "last_match_step (''regions_processed'', rx_regions_processed) s m8 = Inr m9" and
    s10: "last_match_step (''regions_per_minute'', rx_regions_per_minute) s m9 = Inr m"
    unfolding parse_parabricks_output_def parse_steps_def search_rules_def
    by (auto simp: bind_exc_Inr)
  have "m5 ''regions_processed'' = None"
    using rule_step_other [OF s1, of "''regions_processed''"]
      rule_step_other [OF s2, of "''regions_processed''"]
      rule_step_other [OF s3, of "''regions_processed''"]
      rule_step_other [OF s4, of "''regions_processed''"]
      rule_step_other [OF s5, of "''regions_processed''"] by simp
  from rule_step_own [OF s6 this] have m6: "m6 ''regions_processed'' =
    (case re_search rx_regions_processed s of None \<Rightarrow> None
     | Some gs \<Rightarrow> py_float (group1 gs))" .
  have m8: "m8 ''regions_processed'' = m6 ''regions_processed''"
    using rule_step_other [OF s7, of "''regions_processed''"]
      rate_block_step_other [OF s8, of "''regions_processed''"] by simp
  have d8: "re_search rx_regions_processed s \<noteq> None \<longrightarrow> ''regions_processed'' \<in> dom m8"
    using rule_step_dom [OF s6] m8 by (auto simp: dom_def)
  from last_match_step_dead [OF d8] s9 have m9: "m9 = m8" by simp
  have "m ''regions_processed'' = m9 ''regions_processed''"
    using s10 by (auto simp: last_match_step_def dest!: set_float_Inr split: if_splits list.splits)
  with m9 m8 m6 show ?thesis by simp
qed

text \<open>
  C1: on a log with two progress lines, whose counters are 1000 and then 2500 (these
  are the two matches \<^verbatim>\<open>findall\<close> would give), \<^verbatim>\<open>parse_parabricks_output\<close> stores
  1000 under \<^verbatim>\<open>regions_processed\<close>: the first occurrence, not the last.
\<close>

theorem parse_keeps_first_progress_counter:
  "re_findall rx_regions_processed progress_log = [''1000'', ''2500'']
   \<and> metric_of (parse_parabricks_output progress_log) ''regions_processed'' = Some (PFloat 1000)"
  by code_simp

section \<open>Zero counts from flagstat\<close>

lemma count_aligned_reads_zero:
  "parsed_flagstat p = Inr (t, pp) \<Longrightarrow> t = Some 0 \<or> pp = Some 0 \<Longrightarrow>
   count_aligned_reads p = (None, None)"
  by (auto simp: count_aligned_reads_def truthy_def)

lemma count_aligned_reads_failed:
  "parsed_flagstat p = Inl e \<Longrightarrow> count_aligned_reads p = (None, None)"
  by (simp add: count_aligned_reads_def)

lemma count_aligned_reads_Some:
  "count_aligned_reads p = (Some t, Some pp) \<Longrightarrow>
   parsed_flagstat p = Inr (Some t, Some pp) \<and> t \<noteq> 0 \<and> pp \<noteq> 0"
  by (auto simp: count_aligned_reads_def truthy_def split: sum.splits if_splits option.splits)

lemma after_stages_no_counts:
  "count_aligned_reads (flagstat_proc env) = (None, None) \<Longrightarrow>
   after_stages sid env reads fm hm = Returned"
  by (simp add: after_stages_def)

lemma process_sample_wrote:
  "snd (process_sample sid env) = Wrote row \<Longrightarrow>
   \<exists>reads fm hm. after_stages sid env reads fm hm = Wrote row"
  unfolding process_sample_def
  by (auto split: if_splits option.splits sum.splits prod.splits)

text \<open>
  C10: when the loop of \<^verbatim>\<open>count_aligned_reads\<close> ends with a total or a properly-paired
  count of 0, the function returns \<^verbatim>\<open>(None, None)\<close>, which is also what it returns
  when reading or parsing fails, and \<^verbatim>\<open>process_sample\<close> returns at that point: no
  metrics file is written for the sample.
\<close>

theorem zero_counts_yield_no_metrics_file:
  assumes "parsed_flagstat (flagstat_proc env) = Inr (t, pp)"
    and "t = Some 0 \<or> pp = Some 0"
  shows "count_aligned_reads (flagstat_proc env) = (None, None)
    \<and> (\<forall>q e. parsed_flagstat q = Inl e \<longrightarrow>
          count_aligned_reads q = count_aligned_reads (flagstat_proc env))
    \<and> after_stages sid env reads fm hm = Returned
    \<and> \<not> wrote (snd (process_sample sid env))"
proof -
  have z: "count_aligned_reads (flagstat_proc env) = (None, None)"
    using assms by (rule count_aligned_reads_zero)
  have a: "\<And>reads fm hm. after_stages sid env reads fm hm = Returned"
    using z by (rule after_stages_no_counts)
  have "\<not> wrote (snd (process_sample sid env))"
  proof
    assume "wrote (snd (process_sample sid env))"
    then obtain row where "snd (process_sample sid env) = Wrote row"
      by (auto simp: wrote_def split: outcome.splits)
    from process_sample_wrote [OF this] a show False by simp
  qed
  with z a show ?thesis by (simp add: count_aligned_reads_failed)
qed

lemma parsed_flagstat_empty_bam:
  "parsed_flagstat (Exited 0 flagstat_empty_bam []) = Inr (Some 0, Some 0)"
  by code_simp

theorem zero_counts_yield_no_metrics_file_witness:
  "parsed_flagstat (flagstat_proc empty_bam_env) = Inr (Some 0, Some 0)
   \<and> count_aligned_reads (flagstat_proc empty_bam_env) = (None, None)
   \<and> \<not> wrote (snd (process_sample ''S1'' empty_bam_env))"
proof -
  have p: "parsed_flagstat (flagstat_proc empty_bam_env) = Inr (Some 0, Some 0)"
    by (simp add: empty_bam_env_def parsed_flagstat_empty_bam)
  have z: "Some (0::int) = Some 0 \<or> Some (0::int) = Some 0" by simp
  from zero_counts_yield_no_metrics_file [OF p z, of "''S1''"] p show ?thesis by simp
qed

section \<open>The derived alignment rate\<close>

lemma alignment_rate_positive:
  "0 < t \<Longrightarrow> int_true_div p t = Inr ratio \<Longrightarrow>
   alignment_rate_of t p = Inr (fl_mul_int ratio 100)"
  by (simp add: alignment_rate_of_def bind_exc_def)

lemma alignment_rate_200_180: "alignment_rate_of 200 180 = Inr (PFloat 90)"
  by code_simp

text \<open>The two roundings show: 57 properly paired of 100 give the double just below 57.\<close>

lemma alignment_rate_100_57:
  "alignment_rate_of 100 57 = Inr (PFloat (8022036836253695 / 140737488355328))"
  by code_simp

lemma written_alignment_rate:
  assumes "snd (process_sample sid env) = Wrote row"
  shows "\<exists>t p rate. count_aligned_reads (flagstat_proc env) = (Some t, Some p) \<and> t \<noteq> 0
           \<and> p \<noteq> 0 \<and> alignment_rate_of t p = Inr rate \<and> nth_opt row 8 = Some rate"
proof -
  from process_sample_wrote [OF assms] obtain reads fm hm
    where a: "after_stages sid env reads fm hm = Wrote row" by blast
  then obtain t p rate where c: "count_aligned_reads (flagstat_proc env) = (Some t, Some p)"
    and r: "alignment_rate_of t p = Inr rate"
    by (auto simp: after_stages_def split: prod.splits option.splits sum.splits)
  with a have "nth_opt row 8 = Some rate"
    by (auto simp: after_stages_def build_row_def nth_opt_def)
  with c r count_aligned_reads_Some [OF c] show ?thesis by blast
qed

text \<open>
  C2: the expression of \<^verbatim>\<open>process_sample\<close> gives the number 0 for a total of 0, but
  the call never gets there with that total. For an alignment without reads, flagstat
  reports 0 reads in total, the loop parses the two counts as 0, and
  \<^verbatim>\<open>process_sample\<close> returns after both stages without deriving a rate and without
  writing the metrics file.
\<close>

theorem zero_total_derives_no_rate:
  "alignment_rate_of 0 0 = Inr (PInt 0)
   \<and> parsed_flagstat (flagstat_proc empty_bam_env) = Inr (Some 0, Some 0)
   \<and> process_sample ''S1'' empty_bam_env
       = ([MonitorStarted, Fq2bamRun, HaplotypecallerRun], Returned)"
  by code_simp

theorem zero_total_derives_no_rate_witness:
  "snd (process_sample ''S1'' empty_bam_env) = Returned"
  using zero_total_derives_no_rate by simp

section \<open>A failed stage ends the sample\<close>

lemma run_stage_nonzero:
  "rc \<noteq> 0 \<Longrightarrow> run_stage (Exited rc out err) lf = Inr (err, False)"
  by (simp add: run_stage_def)

lemma run_stage_success:
  "run_stage p lf = Inr (out, True) \<Longrightarrow> \<exists>so se l. p = Exited 0 so se \<and> lf = Some l \<and> out = so @ l"
  by (auto simp: run_stage_def split: proc.splits if_splits option.splits)

lemma hc_needs_fq2bam:
  "HaplotypecallerRun \<in> set (fst (process_sample sid env)) \<Longrightarrow>
   \<exists>out. run_parabricks_fq2bam (fq2bam_proc env) (fq2bam_log_file env) = Inr (out, True)"
  unfolding process_sample_def
  by (auto split: if_splits option.splits sum.splits prod.splits)

lemma failed_fq2bam_stops:
  "run_parabricks_fq2bam (fq2bam_proc env) (fq2bam_log_file env) = Inr (out, False) \<Longrightarrow>
   HaplotypecallerRun \<notin> set (fst (process_sample sid env))
   \<and> \<not> wrote (snd (process_sample sid env))"
  unfolding process_sample_def
  by (auto simp: wrote_def split: if_splits option.splits sum.splits prod.splits)

lemma failed_hc_stops:
  "run_parabricks_haplotypecaller (hc_proc env) (hc_log_file env) = Inr (out, False) \<Longrightarrow>
   \<not> wrote (snd (process_sample sid env))"
  unfolding process_sample_def
  by (auto simp: wrote_def split: if_splits option.splits sum.splits prod.splits)

text \<open>
  C5: a stage that exits with a non-zero code is reported by its runner as
  \<^verbatim>\<open>(stderr, False)\<close>, the error text unchanged. In \<^verbatim>\<open>process_sample\<close> a failed
  fq2bam means that haplotypecaller is not started and no metrics file is written, a
  failed haplotypecaller means that no metrics file is written, and haplotypecaller is
  started only when fq2bam exited with code 0 and its runner reported success.
\<close>

theorem failed_stage_is_terminal:
  "(rc \<noteq> 0 \<longrightarrow>
      run_parabricks_fq2bam (Exited rc out err) lf = Inr (err, False)
      \<and> run_parabricks_haplotypecaller (Exited rc out err) lf = Inr (err, False))
   \<and> (fq2bam_proc env = Exited rc out err \<and> rc \<noteq> 0 \<longrightarrow>
        HaplotypecallerRun \<notin> set (fst (process_sample sid env))
        \<and> \<not> wrote (snd (process_sample sid env)))
   \<and> (hc_proc env = Exited rc out err \<and> rc \<noteq> 0 \<longrightarrow> \<not> wrote (snd (process_sample sid env)))
   \<and> (HaplotypecallerRun \<in> set (fst (process_sample sid env)) \<longrightarrow>
        (\<exists>so se. fq2bam_proc env = Exited 0 so se)
        \<and> (\<exists>outp. run_parabricks_fq2bam (fq2bam_proc env) (fq2bam_log_file env)
                     = Inr (outp, True)))"
proof (intro conjI impI)
  assume "rc \<noteq> 0"
  then show "run_parabricks_fq2bam (Exited rc out err) lf = Inr (err, False)"
    by (simp add: run_parabricks_fq2bam_def run_stage_nonzero)
next
  assume "rc \<noteq> 0"
  then show "run_parabricks_haplotypecaller (Exited rc out err) lf = Inr (err, False)"
    by (simp add: run_parabricks_haplotypecaller_def run_stage_nonzero)
next
  assume a: "fq2bam_proc env = Exited rc out err \<and> rc \<noteq> 0"
  then have "run_parabricks_fq2bam (fq2bam_proc env) (fq2bam_log_file env) = Inr (err, False)"
    by (simp add: run_parabricks_fq2bam_def run_stage_nonzero)
  from failed_fq2bam_stops [OF this]
  show "HaplotypecallerRun \<notin> set (fst (process_sample sid env))"
    and "\<not> wrote (snd (process_sample sid env))" by simp_all
next
  assume a: "hc_proc env = Exited rc out err \<and> rc \<noteq> 0"
  then have "run_parabricks_haplotypecaller (hc_proc env) (hc_log_file env) = Inr (err, False)"
    by (simp add: run_parabricks_haplotypecaller_def run_stage_nonzero)
  from failed_hc_stops [OF this] show "\<not> wrote (snd (process_sample sid env))" .
next
  assume "HaplotypecallerRun \<in> set (fst (process_sample sid env))"
  from hc_needs_fq2bam [OF this] obtain outp where
    t: "run_parabricks_fq2bam (fq2bam_proc env) (fq2bam_log_file env) = Inr (outp, True)" ..
  then show "\<exists>outp. run_parabricks_fq2bam (fq2bam_proc env) (fq2bam_log_file env)
                       = Inr (outp, True)"
    by blast
  from t show "\<exists>so se. fq2bam_proc env = Exited 0 so se"
    unfolding run_parabricks_fq2bam_def by (blast dest: run_stage_success)
qed

lemma good_env_runs_both:
  "fst (process_sample ''S1'' good_env) = [MonitorStarted, Fq2bamRun, HaplotypecallerRun]"
  by code_simp

theorem failed_stage_is_terminal_witness:
  "run_parabricks_fq2bam (Exited 1 [] ''out of memory'') None = Inr (''out of memory'', False)
   \<and> HaplotypecallerRun \<notin> set (fst (process_sample ''S1'' fq2bam_fails_env))
   \<and> \<not> wrote (snd (process_sample ''S1'' fq2bam_fails_env))
   \<and> \<not> wrote (snd (process_sample ''S1'' (good_env\<lparr>hc_proc := Exited 1 [] ''out of memory''\<rparr>)))
   \<and> HaplotypecallerRun \<in> set (fst (process_sample ''S1'' good_env))
   \<and> (\<exists>so se. fq2bam_proc good_env = Exited 0 so se)"
proof -
  have f: "fq2bam_proc fq2bam_fails_env = Exited 1 [] ''out of memory'' \<and> (1::int) \<noteq> 0"
    by (simp add: fq2bam_fails_env_def)
  have h: "hc_proc (good_env\<lparr>hc_proc := Exited 1 [] ''out of memory''\<rparr>)
             = Exited 1 [] ''out of memory'' \<and> (1::int) \<noteq> 0"
    by simp
  have g: "HaplotypecallerRun \<in> set (fst (process_sample ''S1'' good_env))"
    by (simp add: good_env_runs_both)
  from failed_stage_is_terminal [of 1 "[]" "''out of memory''" None fq2bam_fails_env "''S1''"] f
  have 1: "run_parabricks_fq2bam (Exited 1 [] ''out of memory'') None = Inr (''out of memory'', False)"
    and 2: "HaplotypecallerRun \<notin> set (fst (process_sample ''S1'' fq2bam_fails_env))"
    and 3: "\<not> wrote (snd (process_sample ''S1'' fq2bam_fails_env))"
    by simp_all
  from failed_stage_is_terminal [of 1 "[]" "''out of memory''" None
      "good_env\<lparr>hc_proc := Exited 1 [] ''out of memory''\<rparr>" "''S1''"] h
  have 4: "\<not> wrote (snd (process_sample ''S1'' (good_env\<lparr>hc_proc := Exited 1 [] ''out of memory''\<rparr>)))"
    by blast
  from failed_stage_is_terminal [of 0 "[]" "[]" None good_env "''S1''"] g
  have 5: "\<exists>so se. fq2bam_proc good_env = Exited 0 so se" by blast
  from 1 2 3 4 5 g show ?thesis by blast
qed

section \<open>Absent fields in the per-sample metrics file\<close>

lemma csv_field_NA: "csv_field repr NA = ''NA''"
  by (simp add: csv_field_def NA_def needs_quote_def)

lemma dict_get_absent: "d key = None \<Longrightarrow> dict_get d key dflt = dflt"
  by (simp add: dict_get_def)

lemma dict_get_present: "d key = Some v \<Longrightarrow> dict_get d key dflt = v"
  by (simp add: dict_get_def)

lemma dict_columns:
  "file_column ''BWA Time (sec)'' (metrics_file repr (build_row v))
     = Some (csv_field repr (dict_get (fq2bam_metrics v) ''bwa_time'' NA))"
  "file_column ''Sorting Time (sec)'' (metrics_file repr (build_row v))
     = Some (csv_field repr (dict_get (fq2bam_metrics v) ''sorting_time'' NA))"
  "file_column ''BQSR Time (sec)'' (metrics_file repr (build_row v))
     = Some (csv_field repr (dict_get (fq2bam_metrics v) ''bqsr_time'' NA))"
  "file_column ''Regions Processed'' (metrics_file repr (build_row v))
     = Some (csv_field repr (dict_get (hc_metrics v) ''regions_processed'' NA))"
  "file_column ''Regions/Minute'' (metrics_file repr (build_row v))
     = Some (csv_field repr (dict_get (hc_metrics v) ''regions_per_minute'' NA))"
  "file_column ''Time Spent Reading (sec)'' (metrics_file repr (build_row v))
     = Some (csv_field repr (dict_get (fq2bam_metrics v) ''time_reading'' NA))"
  "file_column ''Min Rate (bases/GPU/min)'' (metrics_file repr (build_row v))
     = Some (csv_field repr (dict_get (fq2bam_metrics v) ''min_rate'' NA))"
  "file_column ''Max Rate (bases/GPU/min)'' (metrics_file repr (build_row v))
     = Some (csv_field repr (dict_get (fq2bam_metrics v) ''max_rate'' NA))"
  "file_column ''Avg Rate (bases/GPU/min)'' (metrics_file repr (build_row v))
     = Some (csv_field repr (dict_get (fq2bam_metrics v) ''avg_rate'' NA))"
  "file_column ''Monitor Time (sec)'' (metrics_file repr (build_row v))
     = Some (csv_field repr (dict_get (fq2bam_metrics v) ''monitor_time'' NA))"
  "file_column ''Mean Insert Size'' (metrics_file repr (build_row v))
     = Some (csv_field repr (dict_get (quality_metrics v) ''mean_insert_size'' NA))"
  "file_column ''GC Bias'' (metrics_file repr (build_row v))
     = Some (csv_field repr (dict_get (quality_metrics v) ''gc_bias'' NA))"
  "file_column ''Mean Quality Score'' (metrics_file repr (build_row v))
     = Some (csv_field repr (dict_get (quality_metrics v) ''mean_quality'' NA))"
  by (simp_all add: file_column_def metrics_file_def header_def build_row_def
        csv_field_def needs_quote_def)

text \<open>
  C8, as amended: each of the thirteen columns that are filled from a metrics dict holds
  the literal token \<^verbatim>\<open>NA\<close> in the per-sample file when its key is not in the dict.
\<close>

theorem absent_dict_fields_serialize_as_NA:
  assumes "(col, d, key) \<in> set
     [(''BWA Time (sec)'', fq2bam_metrics, ''bwa_time''),
      (''Sorting Time (sec)'', fq2bam_metrics, ''sorting_time''),
      (''BQSR Time (sec)'', fq2bam_metrics, ''bqsr_time''),
      (''Regions Processed'', hc_metrics, ''regions_processed''),
      (''Regions/Minute'', hc_metrics, ''regions_per_minute''),
      (''Time Spent Reading (sec)'', fq2bam_metrics, ''time_reading''),
      (''Min Rate (bases/GPU/min)'', fq2bam_metrics, ''min_rate''),
      (''Max Rate (bases/GPU/min)'', fq2bam_metrics, ''max_rate''),
      (''Avg Rate (bases/GPU/min)'', fq2bam_metrics, ''avg_rate''),
      (''Monitor Time (sec)'', fq2bam_metrics, ''monitor_time''),
      (''Mean Insert Size'', quality_metrics, ''mean_insert_size''),
      (''GC Bias'', quality_metrics, ''gc_bias''),
      (''Mean Quality Score'', quality_metrics, ''mean_quality'')]"
    and "d v key = None"
  shows "file_column col (metrics_file repr (build_row v)) = Some ''NA''"
proof -
  from assms(1) have "file_column col (metrics_file repr (build_row v))
      = Some (csv_field repr (dict_get (d v) key NA))"
    unfolding set_simps insert_iff empty_iff prod.inject
    by (elim disjE conjE) (simp_all only: dict_columns)
  with assms(2) show ?thesis by (simp add: dict_get_absent csv_field_NA)
qed

theorem absent_dict_fields_serialize_as_NA_witness:
  "file_column ''Sorting Time (sec)'' (metrics_file ratio_repr (build_row bare_inputs)) = Some ''NA''"
proof -
  have b: "fq2bam_metrics bare_inputs ''sorting_time'' = None" by (simp add: bare_inputs_def)
  from absent_dict_fields_serialize_as_NA
         [of "''Sorting Time (sec)''" fq2bam_metrics "''sorting_time''" bare_inputs ratio_repr] b
  show ?thesis by simp
qed

lemma no_variants_row:
  "snd (process_sample ''S1'' no_variants_env) = Wrote
     [PStr ''S1'', PInt 200, PInt 30000, PFloat 40, PFloat 20, PFloat (25 / 2), PStr ''NA'',
      PStr ''NA'', PFloat 90, PNone, PStr ''NA'', PFloat 42, PFloat 50, PFloat 1024, PInt 50,
      PInt 1000, PFloat 1, PFloat 2, PStr ''NA'', PStr ''NA'', PStr ''NA'', PStr ''NA'',
      PStr ''NA'', PFloat (621 / 2), PFloat (3 / 2), PFloat 31]"
  by code_simp

text \<open>
  C8, the claim as stated fails: for a sample whose variants could not be counted and
  whose fq2bam output has no sorting time, the file holds an empty field under
  \<open>Variants Called\<close> and \<^verbatim>\<open>NA\<close> under \<open>Sorting Time (sec)\<close>; neither is the token
  \<^verbatim>\<open>not available\<close>.
\<close>

theorem uncaptured_fields_are_not_written_as_not_available:
  "file_column ''Variants Called''
       (written_file ratio_repr (snd (process_sample ''S1'' no_variants_env))) = Some []
   \<and> file_column ''Sorting Time (sec)''
       (written_file ratio_repr (snd (process_sample ''S1'' no_variants_env))) = Some ''NA''
   \<and> file_column ''Variants Called''
       (written_file ratio_repr (snd (process_sample ''S1'' no_variants_env)))
         \<noteq> Some ''not available''
   \<and> file_column ''Sorting Time (sec)''
       (written_file ratio_repr (snd (process_sample ''S1'' no_variants_env)))
         \<noteq> Some ''not available''"
  unfolding no_variants_row
  by (simp add: written_file_def file_column_def metrics_file_def header_def
        csv_field_def needs_quote_def)

section \<open>Failures while reading the quality reports\<close>

lemma insert_size_loop_other:
  "insert_size_loop ls m = (m', e) \<Longrightarrow> key \<noteq> ''mean_insert_size'' \<Longrightarrow> m' key = m key"
  by (induction ls m rule: insert_size_loop.induct)
     (auto split: if_splits list.splits option.splits)

lemma gc_bias_loop_other:
  "gc_bias_loop ls m = (m', e) \<Longrightarrow> key \<noteq> ''gc_bias'' \<Longrightarrow> m' key = m key"
  by (induction ls m rule: gc_bias_loop.induct)
     (auto split: if_splits list.splits option.splits)

text \<open>Where the \<^verbatim>\<open>try\<close> block stops decides which dict is returned.\<close>

lemma quality_try_no_insert_size:
  "insert_size_txt qf = None \<Longrightarrow> quality_try qf = (Map.empty, Some OSError)"
  by (simp add: quality_try_def)

lemma quality_try_stops_in_first:
  assumes "insert_size_txt qf = Some t1"
    and "snd (insert_size_loop (file_lines t1) Map.empty) \<noteq> None"
  shows "quality_try qf = insert_size_loop (file_lines t1) Map.empty"
  using assms
  by (cases "insert_size_loop (file_lines t1) Map.empty") (auto simp: quality_try_def)

lemma quality_try_no_gcbias:
  assumes "insert_size_txt qf = Some t1"
    and "snd (insert_size_loop (file_lines t1) Map.empty) = None"
    and "gcbias_summary_txt qf = None"
  shows "quality_try qf = (fst (insert_size_loop (file_lines t1) Map.empty), Some OSError)"
  using assms
  by (cases "insert_size_loop (file_lines t1) Map.empty") (auto simp: quality_try_def)

lemma quality_try_after_gcbias:
  assumes "insert_size_txt qf = Some t1"
    and "snd (insert_size_loop (file_lines t1) Map.empty) = None"
    and "gcbias_summary_txt qf = Some t2"
    and "m2 = fst (gc_bias_loop (file_lines t2) (fst (insert_size_loop (file_lines t1) Map.empty)))"
  shows "fst (quality_try qf) = m2
         \<or> (\<exists>qs. snd (quality_try qf) = None
               \<and> fst (quality_try qf) = m2(''mean_quality'' \<mapsto> mean_quality_value qs)
               \<and> list_all float_value qs)"
proof -
  obtain m1 where l1: "insert_size_loop (file_lines t1) Map.empty = (m1, None)"
    using assms(2) by (cases "insert_size_loop (file_lines t1) Map.empty") auto
  obtain e2 where l2: "gc_bias_loop (file_lines t2) m1 = (m2, e2)"
    using assms(4) l1 by (cases "gc_bias_loop (file_lines t2) m1") auto
  show ?thesis
  proof (cases e2)
    case (Some e)
    with l1 l2 assms(1,3) show ?thesis by (simp add: quality_try_def)
  next
    case None
    show ?thesis
    proof (cases "mean_quality_by_cycle_txt qf")
      case n: None
      with None l1 l2 assms(1,3) show ?thesis by (simp add: quality_try_def)
    next
      case (Some t3)
      show ?thesis
      proof (cases "quality_loop (file_lines t3) False []")
        case (Inl e)
        with Some None l1 l2 assms(1,3) show ?thesis by (simp add: quality_try_def)
      next
        case (Inr qs)
        from quality_loop_floats [OF Inr] have "list_all float_value qs" by simp
        with Inr Some None l1 l2 assms(1,3) show ?thesis
          by (intro disjI2 exI [of _ qs]) (simp add: quality_try_def)
      qed
    qed
  qed
qed

lemma quality_try_failed_after_gcbias:
  assumes "insert_size_txt qf = Some t1"
    and "snd (insert_size_loop (file_lines t1) Map.empty) = None"
    and "gcbias_summary_txt qf = Some t2"
    and "snd (quality_try qf) = Some e"
  shows "fst (quality_try qf)
           = fst (gc_bias_loop (file_lines t2) (fst (insert_size_loop (file_lines t1) Map.empty)))"
  using quality_try_after_gcbias [OF assms(1-3) refl] assms(4) by auto

lemma quality_try_keys:
  assumes "key \<notin> {''mean_insert_size'', ''gc_bias'', ''mean_quality''}"
  shows "fst (quality_try qf) key = None"
proof (cases "insert_size_txt qf")
  case None
  then show ?thesis by (simp add: quality_try_no_insert_size)
next
  case (Some t1)
  obtain m1 e1 where l1: "insert_size_loop (file_lines t1) Map.empty = (m1, e1)"
    by (cases "insert_size_loop (file_lines t1) Map.empty")
  from insert_size_loop_other [OF l1, of key] assms have m1: "m1 key = None" by simp
  show ?thesis
  proof (cases e1)
    case e: (Some e)
    with quality_try_stops_in_first [OF Some] l1 m1 show ?thesis by simp
  next
    case n1: None
    show ?thesis
    proof (cases "gcbias_summary_txt qf")
      case None
      with quality_try_no_gcbias [OF Some] l1 n1 m1 show ?thesis by simp
    next
      case t2: (Some t2)
      obtain m2 e2 where l2: "gc_bias_loop (file_lines t2) m1 = (m2, e2)"
        by (cases "gc_bias_loop (file_lines t2) m1")
      from gc_bias_loop_other [OF l2, of key] assms m1 have m2: "m2 key = None" by simp
      from quality_try_after_gcbias [OF Some _ t2 refl] l1 n1 l2 m2 assms
      show ?thesis by auto
    qed
  qed
qed

lemma quality_try_failure_no_mean_quality:
  assumes "snd (quality_try qf) = Some e"
  shows "fst (quality_try qf) ''mean_quality'' = None"
proof (cases "insert_size_txt qf")
  case None
  then show ?thesis by (simp add: quality_try_no_insert_size)
next
  case (Some t1)
  obtain m1 e1 where l1: "insert_size_loop (file_lines t1) Map.empty = (m1, e1)"
    by (cases "insert_size_loop (file_lines t1) Map.empty")
  from insert_size_loop_other [OF l1, of "''mean_quality''"] have m1: "m1 ''mean_quality'' = None"
    by simp
  show ?thesis
  proof (cases e1)
    case e: (Some e)
    with quality_try_stops_in_first [OF Some] l1 m1 show ?thesis by simp
  next
    case n1: None
    show ?thesis
    proof (cases "gcbias_summary_txt qf")
      case None
      with quality_try_no_gcbias [OF Some] l1 n1 m1 show ?thesis by simp
    next
      case t2: (Some t2)
      obtain m2 e2 where l2: "gc_bias_loop (file_lines t2) m1 = (m2, e2)"
        by (cases "gc_bias_loop (file_lines t2) m1")
      from gc_bias_loop_other [OF l2, of "''mean_quality''"] m1
      have m2: "m2 ''mean_quality'' = None" by simp
      from quality_try_failed_after_gcbias [OF Some _ t2 assms] l1 n1 l2 m2
      show ?thesis by simp
    qed
  qed
qed

lemma parse_quality_reports_dict: "fst (parse_quality_reports sid qf) = fst (quality_try qf)"
  by (cases "quality_try qf") (auto simp: parse_quality_reports_def split: option.splits)

lemma after_stages_quality:
  "wrote (after_stages sid (env\<lparr>quality := qf\<rparr>) reads fm hm)
     = wrote (after_stages sid env reads fm hm)"
  by (simp add: after_stages_def wrote_def split: prod.splits option.splits sum.splits)

lemma quality_does_not_abort:
  "wrote (snd (process_sample sid (env\<lparr>quality := qf\<rparr>))) = wrote (snd (process_sample sid env))"
  unfolding process_sample_def
  by (simp add: after_stages_quality split: option.splits sum.splits prod.splits)

text \<open>
  C9, as amended: when reading or parsing a quality report fails,
  \<^verbatim>\<open>parse_quality_reports\<close> logs the failure once and returns the dict as filled up to
  that point: it is empty when the insert-size report cannot be opened; it is the dict
  the loop over the insert-size report had reached when that loop fails or the bias
  summary cannot be opened; otherwise it is the dict the loop over the bias summary had
  reached, whether the failure is in that loop or in the third report. So every key
  stored before the failure is kept, the mean quality is never stored, and no other key
  appears. Whether \<^verbatim>\<open>process_sample\<close> writes its metrics file does not depend on the
  quality reports.
\<close>

theorem quality_failure_is_contained:
  assumes "snd (quality_try qf) = Some e"
  shows "snd (parse_quality_reports sid qf)
           = [LogError (''Error parsing quality reports for '' @ sid @ '': '') (Some e)]
    \<and> fst (parse_quality_reports sid qf) ''mean_quality'' = None
    \<and> dom (fst (parse_quality_reports sid qf)) \<subseteq> {''mean_insert_size'', ''gc_bias''}
    \<and> (insert_size_txt qf = None \<longrightarrow> fst (parse_quality_reports sid qf) = Map.empty)
    \<and> (gcbias_summary_txt qf = None \<longrightarrow> fst (parse_quality_reports sid qf) ''gc_bias'' = None)
    \<and> (\<forall>t1. insert_size_txt qf = Some t1 \<longrightarrow>
          fst (parse_quality_reports sid qf) ''mean_insert_size''
            = fst (insert_size_loop (file_lines t1) Map.empty) ''mean_insert_size'')
    \<and> (\<forall>t1. insert_size_txt qf = Some t1
            \<and> (snd (insert_size_loop (file_lines t1) Map.empty) \<noteq> None
                 \<or> gcbias_summary_txt qf = None) \<longrightarrow>
          fst (parse_quality_reports sid qf) = fst (insert_size_loop (file_lines t1) Map.empty))
    \<and> (\<forall>t1 t2. insert_size_txt qf = Some t1
            \<and> snd (insert_size_loop (file_lines t1) Map.empty) = None
            \<and> gcbias_summary_txt qf = Some t2 \<longrightarrow>
          fst (parse_quality_reports sid qf)
            = fst (gc_bias_loop (file_lines t2)
                     (fst (insert_size_loop (file_lines t1) Map.empty))))
    \<and> wrote (snd (process_sample sid (env\<lparr>quality := qf\<rparr>))) = wrote (snd (process_sample sid env))"
proof -
  have lg: "snd (parse_quality_reports sid qf)
      = [LogError (''Error parsing quality reports for '' @ sid @ '': '') (Some e)]"
    using assms by (cases "quality_try qf") (simp add: parse_quality_reports_def)
  have mq: "fst (quality_try qf) ''mean_quality'' = None"
    using assms by (rule quality_try_failure_no_mean_quality)
  have keys: "dom (fst (quality_try qf)) \<subseteq> {''mean_insert_size'', ''gc_bias''}"
  proof
    fix key assume k: "key \<in> dom (fst (quality_try qf))"
    show "key \<in> {''mean_insert_size'', ''gc_bias''}"
    proof (rule ccontr)
      assume n: "key \<notin> {''mean_insert_size'', ''gc_bias''}"
      show False
      proof (cases "key = ''mean_quality''")
        case True
        with mq k show False by (simp add: dom_def)
      next
        case False
        with n quality_try_keys [of key qf] k show False by (simp add: dom_def)
      qed
    qed
  qed
  have early: "fst (quality_try qf) = fst (insert_size_loop (file_lines t1) Map.empty)"
    if "insert_size_txt qf = Some t1"
      and "snd (insert_size_loop (file_lines t1) Map.empty) \<noteq> None \<or> gcbias_summary_txt qf = None"
    for t1
  proof (cases "snd (insert_size_loop (file_lines t1) Map.empty) = None")
    case True
    with that quality_try_no_gcbias [OF that(1) True] show ?thesis by simp
  next
    case False
    with quality_try_stops_in_first [OF that(1) False] show ?thesis by simp
  qed
  have late: "fst (quality_try qf)
      = fst (gc_bias_loop (file_lines t2) (fst (insert_size_loop (file_lines t1) Map.empty)))"
    if "insert_size_txt qf = Some t1" "snd (insert_size_loop (file_lines t1) Map.empty) = None"
      "gcbias_summary_txt qf = Some t2" for t1 t2
    using quality_try_failed_after_gcbias [OF that assms] .
  have gc: "fst (quality_try qf) ''gc_bias'' = None" if g: "gcbias_summary_txt qf = None"
  proof (cases "insert_size_txt qf")
    case None
    then show ?thesis by (simp add: quality_try_no_insert_size)
  next
    case (Some t1)
    obtain m1 e1 where l1: "insert_size_loop (file_lines t1) Map.empty = (m1, e1)"
      by (cases "insert_size_loop (file_lines t1) Map.empty")
    from insert_size_loop_other [OF l1, of "''gc_bias''"] have "m1 ''gc_bias'' = None" by simp
    with early [OF Some] g l1 show ?thesis by simp
  qed
  have mis: "fst (quality_try qf) ''mean_insert_size''
      = fst (insert_size_loop (file_lines t1) Map.empty) ''mean_insert_size''"
    if t1: "insert_size_txt qf = Some t1" for t1
  proof (cases "snd (insert_size_loop (file_lines t1) Map.empty) \<noteq> None
                 \<or> gcbias_summary_txt qf = None")
    case True
    with early [OF t1] show ?thesis by simp
  next
    case False
    then obtain t2 where n1: "snd (insert_size_loop (file_lines t1) Map.empty) = None"
      and t2: "gcbias_summary_txt qf = Some t2" by auto
    obtain m2 e2 where l2: "gc_bias_loop (file_lines t2)
        (fst (insert_size_loop (file_lines t1) Map.empty)) = (m2, e2)"
      by (cases "gc_bias_loop (file_lines t2) (fst (insert_size_loop (file_lines t1) Map.empty))")
    from gc_bias_loop_other [OF l2, of "''mean_insert_size''"] late [OF t1 n1 t2] l2
    show ?thesis by simp
  qed
  show ?thesis
    unfolding parse_quality_reports_dict
    using lg mq keys early late gc mis
      quality_does_not_abort [where sid = sid and env = env and qf = qf]
    by (simp add: quality_try_no_insert_size)
qed

lemma gcbias_missing_result:
  "snd (quality_try gcbias_missing) = Some OSError
   \<and> fst (quality_try gcbias_missing) ''mean_insert_size'' = Some (PFloat (621 / 2))"
  by code_simp

text \<open>
  C9, the claim as stated fails: when the bias summary cannot be opened after the
  insert-size report was read, the failure is logged and the contribution is not empty:
  it holds the mean insert size.
\<close>

theorem quality_failure_keeps_earlier_key:
  "fst (parse_quality_reports ''S1'' gcbias_missing) ''mean_insert_size'' = Some (PFloat (621 / 2))
   \<and> snd (parse_quality_reports ''S1'' gcbias_missing)
       = [LogError ''Error parsing quality reports for S1: '' (Some OSError)]"
  by code_simp

lemma third_missing_facts:
  "snd (quality_try third_missing) = Some OSError
   \<and> snd (insert_size_loop (file_lines insert_size_report) Map.empty) = None
   \<and> fst (gc_bias_loop (file_lines gcbias_report)
            (fst (insert_size_loop (file_lines insert_size_report) Map.empty))) ''gc_bias''
       = Some (PFloat (3 / 2))
   \<and> fst (gc_bias_loop (file_lines gcbias_report)
            (fst (insert_size_loop (file_lines insert_size_report) Map.empty))) ''mean_insert_size''
       = Some (PFloat (621 / 2))"
  by code_simp

lemma good_env_wrote: "wrote (snd (process_sample ''S1'' good_env))"
  by code_simp

theorem quality_failure_is_contained_witness:
  "snd (parse_quality_reports ''S1'' third_missing)
     = [LogError (''Error parsing quality reports for '' @ ''S1'' @ '': '') (Some OSError)]
   \<and> fst (parse_quality_reports ''S1'' third_missing) ''mean_quality'' = None
   \<and> fst (parse_quality_reports ''S1'' third_missing) ''gc_bias'' = Some (PFloat (3 / 2))
   \<and> fst (parse_quality_reports ''S1'' third_missing) ''mean_insert_size'' = Some (PFloat (621 / 2))
   \<and> wrote (snd (process_sample ''S1'' (good_env\<lparr>quality := third_missing\<rparr>)))"
proof -
  have f: "snd (quality_try third_missing) = Some OSError" using third_missing_facts by simp
  have t1: "insert_size_txt third_missing = Some insert_size_report"
    and t2: "gcbias_summary_txt third_missing = Some gcbias_report"
    by (simp_all add: third_missing_def all_quality_files_def)
  from quality_failure_is_contained [OF f, of "''S1''" good_env] t1 t2 third_missing_facts
  have "fst (parse_quality_reports ''S1'' third_missing)
      = fst (gc_bias_loop (file_lines gcbias_report)
               (fst (insert_size_loop (file_lines insert_size_report) Map.empty)))"
    by simp
  with quality_failure_is_contained [OF f, of "''S1''" good_env] third_missing_facts good_env_wrote
  show ?thesis by simp
qed

section \<open>Merging files with different columns\<close>

lemma metric_files_Nil: "metric_files [] = []"
  by (simp add: metric_files_def)

lemma metric_files_Cons:
  "metric_files ((filename, rows) # listing) =
     (if endswith filename ''_metrics.csv'' \<and> rows \<noteq> [] then rows # metric_files listing
      else metric_files listing)"
  by (simp add: metric_files_def)

lemma merge_loop_eq:
  "merge_loop listing hw acc =
     acc @ (if hw then concat (map tl (metric_files listing))
            else (case metric_files listing of [] \<Rightarrow> []
                  | rows # _ \<Rightarrow> hd rows # concat (map tl (metric_files listing))))"
proof (induction listing arbitrary: hw acc)
  case Nil
  then show ?case by (simp add: metric_files_Nil)
next
  case (Cons a listing)
  obtain filename rows where a: "a = (filename, rows)" by (cases a)
  show ?case
  proof (cases "endswith filename ''_metrics.csv'' \<and> rows \<noteq> []")
    case True
    then obtain r0 rs where r: "rows = r0 # rs" by (cases rows) auto
    from True have mf: "metric_files (a # listing) = rows # metric_files listing"
      unfolding a by (simp add: metric_files_Cons)
    from True r have ml: "merge_loop (a # listing) hw acc =
        merge_loop listing True ((if \<not> hw then acc @ [r0] else acc) @ rs)"
      unfolding a by simp
    show ?thesis unfolding mf ml Cons.IH using r by simp
  next
    case False
    then have mf: "metric_files (a # listing) = metric_files listing"
      unfolding a by (simp add: metric_files_Cons)
    from False have ml: "merge_loop (a # listing) hw acc = merge_loop listing hw acc"
      unfolding a by (cases rows) auto
    show ?thesis unfolding mf ml by (rule Cons.IH)
  qed
qed

text \<open>
  C7, as amended: \<^verbatim>\<open>merge_metrics\<close> never looks at the columns. The merged
  report is the first row of the first non-empty \<^verbatim>\<open>*_metrics.csv\<close> file followed by
  the other rows of every such file, each copied as it is: a row with fewer columns than
  the header is neither padded nor rejected.
\<close>

theorem merge_copies_rows_verbatim:
  "merge_metrics listing =
     (case metric_files listing of
        [] \<Rightarrow> []
      | first_rows # _ \<Rightarrow> hd first_rows # concat (map tl (metric_files listing)))"
  by (simp add: merge_metrics_def merge_loop_eq)

text \<open>
  C7, the claim as stated fails: of three files, the second lacks the column
  \<open>Opt\<close>; its row reaches the merged report with two fields, without a sentinel in
  the missing column.
\<close>

theorem merge_leaves_short_row_unpadded:
  "merge_metrics three_reports =
     [[''Sample'', ''Reads'', ''Opt''], [''a'', ''1'', ''2''], [''b'', ''3''], [''c'', ''4'', ''5'']]"
  by code_simp

section \<open>What becomes of a captured value\<close>

lemma captured_upd:
  "captured m key \<Longrightarrow> v \<noteq> NA \<Longrightarrow> v \<noteq> PNone \<Longrightarrow> captured (m(k \<mapsto> v)) key"
  by (simp add: captured_def)



lemma no_sentinel_captured: "no_sentinel m \<Longrightarrow> m key = Some x \<Longrightarrow> x \<noteq> NA \<and> x \<noteq> PNone"
  by (auto simp: no_sentinel_def)

lemma py_float_stored: "py_float t = Some v \<Longrightarrow> v \<noteq> NA \<and> v \<noteq> PNone"
  by (rule float_value_stored [OF py_float_float])

lemma captured_upd_parsed:
  "py_float t = Some v \<Longrightarrow> captured m key \<Longrightarrow> captured (m(k \<mapsto> v)) key"
  using py_float_stored [of t v] by (simp add: captured_upd)











lemma insert_size_loop_grows: "insert_size_loop ls m = (m', e) \<Longrightarrow> dom m \<subseteq> dom m'"
  by (induction ls m rule: insert_size_loop.induct)
     (auto split: if_splits list.splits option.splits)

lemma insert_size_loop_captured:
  "insert_size_loop ls m = (m', e) \<Longrightarrow> captured m key \<Longrightarrow> captured m' key"
  by (induction ls m rule: insert_size_loop.induct)
     (auto split: if_splits list.splits option.splits simp: captured_upd_parsed)


lemma gc_bias_loop_grows: "gc_bias_loop ls m = (m', e) \<Longrightarrow> dom m \<subseteq> dom m'"
  by (induction ls m rule: gc_bias_loop.induct)
     (auto split: if_splits list.splits option.splits)
















section \<open>The batch runs every sample\<close>














end
